theory Spec2Isabelle
  imports Main
begin

section \<open>Python strings\<close>

text \<open>
  A Python \<open>str\<close> is modelled as a \<open>string\<close> whose characters are the code points
  below 256 (ASCII and Latin-1), read with \<open>of_char\<close>. The library functions
  \<open>str.strip\<close>, \<open>str.lower\<close>, \<open>str.startswith\<close>, \<open>str.rstrip\<close>, \<open>str.join\<close>, \<open>str(int)\<close> and
  \<open>int(str)\<close> are written out for that range.
\<close>

definition py_isspace :: "char \<Rightarrow> bool" where
  "py_isspace c =
     (let n = (of_char c :: nat)
      in (9 \<le> n \<and> n \<le> 13) \<or> (28 \<le> n \<and> n \<le> 32) \<or> n = 133 \<or> n = 160)"

definition py_strip :: "string \<Rightarrow> string" where
  "py_strip s = rev (dropWhile py_isspace (rev (dropWhile py_isspace s)))"

definition py_lower_char :: "char \<Rightarrow> char" where
  "py_lower_char c =
     (let n = (of_char c :: nat)
      in if (65 \<le> n \<and> n \<le> 90) \<or> (192 \<le> n \<and> n \<le> 222 \<and> n \<noteq> 215)
         then char_of (n + 32) else c)"

definition py_lower :: "string \<Rightarrow> string" where
  "py_lower s = map py_lower_char s"

definition startswith :: "string \<Rightarrow> string \<Rightarrow> bool" where
  "startswith s p = (take (length p) s = p)"

section \<open>Recognising a requirement on the framework\<close>

text \<open>
  \<open>_looks_like_datasette_requirement\<close>. The argument is a string of the install list;
  \<open>req or ""\<close> leaves a string as it is. \<open>next_ch\<close> is the slice \<open>req[9:10]\<close>, a string
  of length zero or one, tested for membership in the tuple of one-character strings.
\<close>

definition looks_like_datasette_requirement :: "string \<Rightarrow> bool" where
  "looks_like_datasette_requirement req0 =
     (let req = py_lower (py_strip req0)
      in if \<not> startswith req ''datasette'' then False
         else if req = ''datasette'' then True
         else (let next_ch = take 1 (drop (length ''datasette'') req)
               in next_ch \<in> set [''='', ''<'', ''>'', ''!'', ''~'', ''['', '' '']))"

section \<open>More of the Python library\<close>

text \<open>\<open>sep.join(xs)\<close>.\<close>

fun str_join :: "string \<Rightarrow> string list \<Rightarrow> string" where
  "str_join sep [] = []"
| "str_join sep [x] = x"
| "str_join sep (x # y # ys) = x @ sep @ str_join sep (y # ys)"

text \<open>\<open>s.rstrip(chars)\<close>: every trailing character that occurs in \<open>chars\<close> is removed.\<close>

definition py_rstrip :: "string \<Rightarrow> string \<Rightarrow> string" where
  "py_rstrip s chars = rev (dropWhile (\<lambda>c. c \<in> set chars) (rev s))"

text \<open>\<open>s.rstrip()\<close>: trailing whitespace is removed.\<close>

definition py_rstrip_ws :: "string \<Rightarrow> string" where
  "py_rstrip_ws s = rev (dropWhile py_isspace (rev s))"

text \<open>\<open>str(n)\<close> for an integer: decimal digits, with a minus sign when negative.\<close>

definition digit_char :: "nat \<Rightarrow> char" where
  "digit_char d = char_of (48 + d)"

function str_nat :: "nat \<Rightarrow> string" where
  "str_nat n = (if n < 10 then [digit_char n] else str_nat (n div 10) @ [digit_char (n mod 10)])"
  by pat_completeness auto
termination
  by (relation "measure id") auto

declare str_nat.simps [simp del]

definition py_str_int :: "int \<Rightarrow> string" where
  "py_str_int i = (if i < 0 then CHR ''-'' # str_nat (nat (- i)) else str_nat (nat i))"

text \<open>
  \<open>int(s)\<close> in base ten: surrounding whitespace is ignored, one sign may come first, then
  decimal digits, where a single underscore may stand between two digits. Anything else
  raises \<open>ValueError\<close>, the value \<open>None\<close> here. (The interpreter's limit on the number of
  digits of a literal is not modelled.)
\<close>

definition is_digit :: "char \<Rightarrow> bool" where
  "is_digit c = (48 \<le> (of_char c :: nat) \<and> (of_char c :: nat) \<le> 57)"

definition digit_val :: "char \<Rightarrow> nat" where
  "digit_val c = of_char c - 48"

fun py_int_digits :: "nat \<Rightarrow> string \<Rightarrow> nat option" where
  "py_int_digits acc [] = Some acc"
| "py_int_digits acc [c] = (if is_digit c then Some (acc * 10 + digit_val c) else None)"
| "py_int_digits acc (c # d # s) =
     (if is_digit c then py_int_digits (acc * 10 + digit_val c) (d # s)
      else if c = CHR ''_'' \<and> is_digit d then py_int_digits acc (d # s)
      else None)"

definition py_int_unsigned :: "string \<Rightarrow> nat option" where
  "py_int_unsigned s =
     (case s of [] \<Rightarrow> None | c # _ \<Rightarrow> if is_digit c then py_int_digits 0 s else None)"

definition py_int :: "string \<Rightarrow> int option" where
  "py_int s0 =
     (case py_strip s0 of
        [] \<Rightarrow> None
      | c # t \<Rightarrow>
          if c = CHR ''-'' then map_option (\<lambda>n. - int n) (py_int_unsigned t)
          else if c = CHR ''+'' then map_option int (py_int_unsigned t)
          else map_option int (py_int_unsigned (c # t)))"

text \<open>\<open>os.path.split(f)[-1]\<close> on POSIX: what follows the last slash.\<close>

definition basename :: "string \<Rightarrow> string" where
  "basename f = rev (takeWhile (\<lambda>c. c \<noteq> CHR ''/'') (rev f))"

text \<open>
  \<open>dict(pairs)\<close>: a dictionary keeps its keys in the order of their first insertion, and a
  later pair with a key already present replaces the value in place.
\<close>

fun dict_set :: "('k \<times> 'v) list \<Rightarrow> 'k \<Rightarrow> 'v \<Rightarrow> ('k \<times> 'v) list" where
  "dict_set [] k v = [(k, v)]"
| "dict_set ((k', v') # d) k v =
     (if k' = k then (k', v) # d else (k', v') # dict_set d k v)"

definition py_dict :: "('k \<times> 'v) list \<Rightarrow> ('k \<times> 'v) list" where
  "py_dict ps = foldl (\<lambda>d (k, v). dict_set d k v) [] ps"

text \<open>A value that is \<open>None\<close> or a string is true, in a condition, when it is a non-empty string.\<close>

definition truthy :: "string option \<Rightarrow> bool" where
  "truthy x = (case x of None \<Rightarrow> False | Some s \<Rightarrow> s \<noteq> [])"

section \<open>\<open>json.dumps\<close>\<close>

text \<open>
  \<open>json.dumps\<close> with its defaults (\<open>ensure_ascii\<close>, separators \<open>", "\<close> and \<open>": "\<close>), for the
  values this program passes to it: a list of strings, and a dictionary from strings to
  booleans, integers and strings. In a string, the quote and the backslash are escaped
  with a backslash, backspace, form feed, newline, carriage return and tab as
  \<open>\b \f \n \r \t\<close>, every other character outside the printable ASCII range as
  \<open>\u00XX\<close> with lower-case hexadecimal digits.
\<close>

datatype setting_value = VBool bool | VInt int | VStr string

definition hex_digit :: "nat \<Rightarrow> char" where
  "hex_digit d = (if d < 10 then char_of (48 + d) else char_of (87 + d))"

definition json_escape_char :: "char \<Rightarrow> string" where
  "json_escape_char c =
     (let n = (of_char c :: nat)
      in if n = 34 then [CHR 0x5C, CHR 0x22]
         else if n = 92 then [CHR 0x5C, CHR 0x5C]
         else if n = 8 then [CHR 0x5C, CHR ''b'']
         else if n = 12 then [CHR 0x5C, CHR ''f'']
         else if n = 10 then [CHR 0x5C, CHR ''n'']
         else if n = 13 then [CHR 0x5C, CHR ''r'']
         else if n = 9 then [CHR 0x5C, CHR ''t'']
         else if 32 \<le> n \<and> n \<le> 126 then [c]
         else [CHR 0x5C, CHR ''u'', CHR ''0'', CHR ''0'', hex_digit (n div 16), hex_digit (n mod 16)])"

definition json_string :: "string \<Rightarrow> string" where
  "json_string s = CHR 0x22 # concat (map json_escape_char s) @ [CHR 0x22]"

definition json_dumps_value :: "setting_value \<Rightarrow> string" where
  "json_dumps_value v =
     (case v of
        VBool b \<Rightarrow> (if b then ''true'' else ''false'')
      | VInt i \<Rightarrow> py_str_int i
      | VStr s \<Rightarrow> json_string s)"

definition json_dumps_list :: "string list \<Rightarrow> string" where
  "json_dumps_list xs = ''['' @ str_join '', '' (map json_string xs) @ '']''"

definition json_dumps_item :: "string \<times> setting_value \<Rightarrow> string" where
  "json_dumps_item kv = json_string (fst kv) @ '': '' @ json_dumps_value (snd kv)"

definition json_dumps_dict :: "(string \<times> setting_value) list \<Rightarrow> string" where
  "json_dumps_dict d = ''{'' @ str_join '', '' (map json_dumps_item d) @ ''}''"

text \<open>A character that \<open>json.dumps\<close> leaves as it is: printable ASCII other than quote and backslash.\<close>

definition json_plain :: "char \<Rightarrow> bool" where
  "json_plain c = (32 \<le> (of_char c :: nat) \<and> (of_char c :: nat) \<le> 126 \<and> c \<noteq> CHR 0x22 \<and> c \<noteq> CHR 0x5C)"

section \<open>The generated files\<close>

text \<open>
  \<open>INDEX_PY\<close> is a format string with the fields \<open>statics\<close>, \<open>database_files\<close>, \<open>extras\<close>,
  \<open>settings\<close> and \<open>crossdb\<close>, in this order; \<open>settings\<close> and \<open>crossdb\<close> stand side by side.
  The five constants are the literal text around the fields, and \<open>INDEX_PY_format\<close> is
  \<open>INDEX_PY.format\<close>, which puts the arguments between them as they are.
\<close>

definition INDEX_PY_1 :: string where
  \<open>INDEX_PY_1 =
     str_join [CHR 0x0A]
       [''from datasette.app import Datasette'',
        ''import json'',
        ''import pathlib'',
        ''import os'',
        [],
        ''static_mounts = ['',
        ''    (static, str((pathlib.Path(".") / static).resolve()))'',
        ''    for static in '']\<close>

definition INDEX_PY_2 :: string where
  \<open>INDEX_PY_2 =
     str_join [CHR 0x0A]
       [[],
        '']'',
        [],
        ''metadata = dict()'',
        ''try:'',
        ''    metadata = json.load(open("metadata.json"))'',
        ''except Exception:'',
        ''    pass'',
        [],
        ''secret = os.environ.get("DATASETTE_SECRET")'',
        [],
        ''true, false = True, False'',
        [],
        ''ds = Datasette('',
        ''    [],'',
        ''    '']\<close>

definition INDEX_PY_3 :: string where
  \<open>INDEX_PY_3 =
     str_join [CHR 0x0A]
       ['','',
        ''    static_mounts=static_mounts,'',
        ''    metadata=metadata'']\<close>

definition INDEX_PY_4 :: string where
  \<open>INDEX_PY_4 =
     str_join [CHR 0x0A]
       ['','',
        ''    secret=secret,'',
        ''    cors=True,'',
        ''    settings='']\<close>

definition INDEX_PY_5 :: string where
  \<open>INDEX_PY_5 =
     str_join [CHR 0x0A]
       [[],
        '')'',
        ''app = ds.app()'']\<close>

definition INDEX_PY_format :: "string \<Rightarrow> string \<Rightarrow> string \<Rightarrow> string \<Rightarrow> string \<Rightarrow> string" where
  "INDEX_PY_format database_files extras statics settings crossdb =
     INDEX_PY_1 @ statics @ INDEX_PY_2 @ database_files @ INDEX_PY_3 @ extras
       @ INDEX_PY_4 @ settings @ crossdb @ INDEX_PY_5"

definition DOCKERFILE :: string where
  \<open>DOCKERFILE =
     str_join [CHR 0x0A]
       [''FROM python:3.12-slim'',
        [],
        ''WORKDIR /app'',
        [],
        ''COPY requirements.txt ./'',
        ''RUN pip install --no-cache-dir -r requirements.txt'',
        [],
        ''COPY . .'',
        [],
        ''ENV PORT=8001'',
        ''EXPOSE 8001'',
        [],
        ''CMD ["uvicorn", "index:app", "--host", "0.0.0.0", "--port", "8001"]'',
        []]\<close>

definition github_actions_workflow :: string where
  \<open>github_actions_workflow =
     str_join [CHR 0x0A]
       [''name: Deploy Datasette to Dokploy'',
        [],
        ''on:'',
        ''  push:'',
        ''    branches: [main]'',
        ''  workflow_dispatch:'',
        [],
        ''permissions:'',
        ''  contents: read'',
        ''  packages: write'',
        [],
        ''jobs:'',
        ''  deploy:'',
        ''    runs-on: ubuntu-latest'',
        ''    steps:'',
        ''      - name: Checkout'',
        ''        uses: actions/checkout@v4'',
        [],
        ''      - name: Log in to GHCR'',
        ''        uses: docker/login-action@v3'',
        ''        with:'',
        ''          registry: ghcr.io'',
        ''          username: ${{ github.actor }}'',
        ''          password: ${{ secrets.GITHUB_TOKEN }}'',
        [],
        ''      - name: Build and push image'',
        ''        uses: docker/build-push-action@v6'',
        ''        with:'',
        ''          context: .'',
        ''          push: true'',
        ''          tags: ghcr.io/${{ github.repository }}:latest'',
        [],
        ''      - name: Trigger Dokploy deployment'',
        ''        uses: benbristow/dokploy-deploy-action@0.0.1'',
        ''        with:'',
        ''          auth_token: ${{ secrets.DOKPLOY_AUTH_TOKEN }}'',
        ''          application_id: ${{ secrets.DOKPLOY_APPLICATION_ID }}'',
        ''          dokploy_url: ${{ secrets.DOKPLOY_URL }}'',
        []]\<close>

section \<open>The world outside\<close>

text \<open>
  What the program calls and does not define is a parameter of the model:
  \<^item> \<open>resolve\<close>: \<open>pathlib.Path(p).resolve()\<close>, as a string;
  \<^item> \<open>staged\<close>: what \<open>temporary_docker_directory\<close> does with the request, either an
    exception or the files of the bundle root it has made the working directory,
    by relative path;
  \<^item> \<open>which\<close>: whether \<open>fail_if_publish_binary_not_installed\<close> finds the binary;
  \<^item> \<open>run_proc\<close>: the outcome of \<open>subprocess.run\<close> on a command line;
  \<^item> \<open>body_read\<close>: what reading the body file gives after that command (\<open>None\<close> when
    opening or reading it raises);
  \<^item> \<open>tmp_name\<close>: the name of the temporary body file;
  \<^item> \<open>path_exists\<close>: whether a path exists before the run;
  \<^item> \<open>failure_text\<close>: \<open>str(ex)\<close> of the \<open>CalledProcessError\<close> for a command and its exit code.
\<close>

record proc_result =
  returncode :: int
  stdout :: string
  stderr :: string

record env =
  resolve :: "string \<Rightarrow> string"
  staged :: "string + (string \<rightharpoonup> string)"
  which :: "string \<Rightarrow> bool"
  run_proc :: "string list \<Rightarrow> proc_result"
  body_read :: "string list \<Rightarrow> string option"
  tmp_name :: string
  path_exists :: "string \<Rightarrow> bool"
  failure_text :: "string list \<Rightarrow> int \<Rightarrow> string"

text \<open>
  The effects of a run: the files of the bundle root, the directories made by
  \<open>shutil.copytree\<close>, the command line of every process started (oldest first), and what
  \<open>click.echo\<close> wrote to the standard and the diagnostic stream.
\<close>

record world =
  w_files :: "string \<rightharpoonup> string"
  w_dirs :: "string \<rightharpoonup> (string \<rightharpoonup> string)"
  w_procs :: "string list list"
  w_out :: "string list"
  w_err :: "string list"

text \<open>
  \<open>ClickException\<close> is the error of every usage, tool and HTTP failure the program raises
  itself. \<open>StagingError\<close> is an exception of the staging collaborator, \<open>MissingBinary\<close> the
  exit of \<open>fail_if_publish_binary_not_installed\<close>, \<open>FileExistsError\<close> the exception of
  \<open>shutil.copytree\<close> when the target exists.
\<close>

datatype error =
  ClickException string
| StagingError string
| MissingBinary string
| FileExistsError string

section \<open>The HTTP caller\<close>

text \<open>\<open>_curl_check\<close>. The command line is built first, then the process runs once.\<close>

definition curl_cmd :: "env \<Rightarrow> string \<Rightarrow> string \<Rightarrow> string list \<Rightarrow> string option \<Rightarrow> string list" where
  "curl_cmd e url method headers data =
     [''curl'', ''-sS'', ''-X'', method, url, ''-o'', tmp_name e, ''-w'', ''%{http_code}'']
       @ concat (map (\<lambda>header. [''-H'', header]) headers)
       @ (case data of None \<Rightarrow> [] | Some d \<Rightarrow> [''-d'', d])"

definition parse_status :: "string \<Rightarrow> int" where
  "parse_status out =
     (if out \<noteq> [] then (case py_int out of Some n \<Rightarrow> n | None \<Rightarrow> 0) else 0)"

definition curl_check ::
  "env \<Rightarrow> string \<Rightarrow> string \<Rightarrow> string list \<Rightarrow> string option \<Rightarrow> world \<Rightarrow> (error + string) \<times> world" where
  "curl_check e url method headers data w =
     (let cmd = curl_cmd e url method headers data;
          result = run_proc e cmd;
          w' = w\<lparr>w_procs := w_procs w @ [cmd]\<rparr>;
          out = py_strip (stdout result);
          err = py_strip (stderr result);
          status = parse_status out;
          body = (case body_read e cmd of Some b \<Rightarrow> b | None \<Rightarrow> [])
      in if returncode result \<noteq> 0 then
           (Inl (ClickException
                  (if err \<noteq> [] then err
                   else ''curl failed with code '' @ py_str_int (returncode result))), w')
         else if status < 200 \<or> status \<ge> 300 then
           (Inl (ClickException
                  (''HTTP '' @ py_str_int status @ '': ''
                     @ (if py_strip body \<noteq> [] then py_strip body else ''(empty response body)''))), w')
         else (Inr body, w'))"

section \<open>The deployment triggers\<close>

text \<open>\<open>_trigger_dokploy\<close> and \<open>_trigger_webhook\<close>; both drop the body \<open>_curl_check\<close> returns.\<close>

definition discard :: "(error + string) \<times> world \<Rightarrow> (error + unit) \<times> world" where
  "discard r = (case r of (Inl x, w) \<Rightarrow> (Inl x, w) | (Inr _, w) \<Rightarrow> (Inr (), w))"

definition trigger_dokploy :: "env \<Rightarrow> string \<Rightarrow> string \<Rightarrow> string \<Rightarrow> world \<Rightarrow> (error + unit) \<times> world" where
  "trigger_dokploy e dokploy_url application_id api_key w =
     (let url = py_rstrip dokploy_url ''/'' @ ''/api/application.deploy'';
          payload = json_dumps_dict [(''applicationId'', VStr application_id)]
      in discard
           (curl_check e url ''POST''
              [''x-api-key: '' @ api_key, ''accept: application/json'',
               ''content-type: application/json'']
              (Some payload) w))"

definition trigger_webhook :: "env \<Rightarrow> string \<Rightarrow> string option \<Rightarrow> world \<Rightarrow> (error + unit) \<times> world" where
  "trigger_webhook e deploy_url token w =
     (let headers = (case token of
                       None \<Rightarrow> []
                     | Some t \<Rightarrow> if t \<noteq> [] then [''Authorization: Bearer '' @ t] else [])
      in discard (curl_check e deploy_url ''POST'' headers None w))"

section \<open>The publish command\<close>

text \<open>
  The arguments of \<open>_publish\<close> that it reads itself. The others (\<open>metadata\<close>,
  \<open>extra_options\<close>, \<open>plugin_secret\<close>, \<open>version_note\<close>, \<open>secret\<close>, the title, licence, source and
  about fields) only go to \<open>temporary_docker_directory\<close>, whose outcome is \<open>staged\<close>.
  An option that was not given is \<open>None\<close>. \<open>static\<close> holds pairs of a mount label and a
  path, \<open>settings\<close> the pairs of a name and a converted value, in argument order.
\<close>

record request =
  files :: "string list"
  branch :: "string option"
  template_dir :: "string option"
  plugins_dir :: "string option"
  static :: "(string \<times> string) list"
  install :: "string list"
  image_arg :: "string option"
  generate_dir :: "string option"
  generate_github_actions :: bool
  dokploy_url :: "string option"
  application_id :: "string option"
  api_key :: "string option"
  deploy_url :: "string option"
  token :: "string option"
  settings :: "(string \<times> setting_value) list"
  crossdb :: bool

text \<open>The string of an option that a condition has found true.\<close>

definition str_of :: "string option \<Rightarrow> string" where
  "str_of x = (case x of None \<Rightarrow> [] | Some s \<Rightarrow> s)"

definition extras_text :: "request \<Rightarrow> string" where
  \<open>extras_text r =
     (let extras = (if truthy (template_dir r) then [''template_dir="templates"''] else [])
                     @ (if truthy (plugins_dir r) then [''plugins_dir="plugins"''] else [])
      in if extras \<noteq> [] then '', '' @ str_join '', '' extras else [])\<close>

definition crossdb_text :: "request \<Rightarrow> string" where
  "crossdb_text r = (if crossdb r then '','' @ [CHR 0x0A] @ ''    crossdb=True'' else [])"

definition index_py :: "request \<Rightarrow> string" where
  "index_py r =
     INDEX_PY_format
       (json_dumps_list (map basename (files r)))
       (extras_text r)
       (json_dumps_list (map fst (static r)))
       (json_dumps_dict (py_dict (settings r)))
       (crossdb_text r)"

definition datasette_from_install :: "request \<Rightarrow> string option" where
  "datasette_from_install r = find looks_like_datasette_requirement (install r)"

definition requirements_txt :: "request \<Rightarrow> string" where
  "requirements_txt r =
     (let dfi = datasette_from_install r;
          datasette_install = (if truthy dfi then str_of dfi else ''datasette'');
          datasette_install =
            (if truthy (branch r) \<and> \<not> truthy dfi
             then ''https://github.com/simonw/datasette/archive/'' @ str_of (branch r) @ ''.zip''
             else datasette_install);
          install' =
            (if truthy dfi
             then filter (\<lambda>req. \<not> looks_like_datasette_requirement req) (install r)
             else install r)
      in str_join [CHR 0x0A] ([datasette_install, ''pysqlite3-binary'', ''uvicorn''] @ install'))"

text \<open>\<open>run(cmd, check=True)\<close> inside the \<open>try\<close> that turns \<open>CalledProcessError\<close> into a \<open>ClickException\<close>.\<close>

definition run_checked :: "env \<Rightarrow> string list \<Rightarrow> world \<Rightarrow> (error + unit) \<times> world" where
  "run_checked e cmd w =
     (let w' = w\<lparr>w_procs := w_procs w @ [cmd]\<rparr>;
          code = returncode (run_proc e cmd)
      in if code \<noteq> 0 then (Inl (ClickException (failure_text e cmd code)), w')
         else (Inr (), w'))"

text \<open>The choice of the trigger, the last statement of \<open>_publish\<close>.\<close>

definition trigger :: "env \<Rightarrow> request \<Rightarrow> world \<Rightarrow> (error + unit) \<times> world" where
  "trigger e r w =
     (if truthy (dokploy_url r) \<and> truthy (application_id r) \<and> truthy (api_key r)
      then trigger_dokploy e (str_of (dokploy_url r)) (str_of (application_id r))
             (str_of (api_key r)) w
      else if truthy (deploy_url r) then trigger_webhook e (str_of (deploy_url r)) (token r) w
      else (Inr (), w))"

text \<open>Direct deployment: \<open>_publish\<close> from the test of \<open>image\<close> on.\<close>

definition deploy :: "env \<Rightarrow> request \<Rightarrow> world \<Rightarrow> (error + unit) \<times> world" where
  "deploy e r w =
     (if \<not> truthy (image_arg r) then
        (Inl (ClickException
           ''--image is required for direct deployment. Use --generate-dir to export files instead.''), w)
      else if \<not> which e ''docker'' then (Inl (MissingBinary ''docker''), w)
      else if \<not> which e ''curl'' then (Inl (MissingBinary ''curl''), w)
      else
        (case run_checked e [''docker'', ''build'', ''-t'', str_of (image_arg r), ''.''] w of
           (Inl x, w1) \<Rightarrow> (Inl x, w1)
         | (Inr _, w1) \<Rightarrow>
             (case run_checked e [''docker'', ''push'', str_of (image_arg r)] w1 of
                (Inl x, w2) \<Rightarrow> (Inl x, w2)
              | (Inr _, w2) \<Rightarrow> trigger e r w2)))"

text \<open>Generate-only mode: the copy of the bundle root and the five messages.\<close>

definition generate :: "env \<Rightarrow> string \<Rightarrow> world \<Rightarrow> (error + unit) \<times> world" where
  "generate e dir w =
     (if path_exists e dir then (Inl (FileExistsError dir), w)
      else
        (Inr (),
         w\<lparr>w_dirs := (w_dirs w)(dir \<mapsto> w_files w),
           w_err := w_err w @
             [''Your generated application files have been written to:'',
              ''    '' @ dir @ [CHR 0x0A],
              ''To deploy from GitHub Actions:'',
              ''1. Commit and push these files'',
              ''2. Run: datasette publish dokploy --generate-github-actions > .github/workflows/deploy-datasette.yml'']\<rparr>))"

text \<open>
  \<open>_publish\<close>. Inside the staged directory it writes the three files in the order of the
  source; the conflict of \<open>--branch\<close> with a framework requirement is raised after
  \<open>index.py\<close> is written and before \<open>requirements.txt\<close> is.
\<close>

definition publish :: "env \<Rightarrow> request \<Rightarrow> world \<Rightarrow> (error + unit) \<times> world" where
  "publish e r w =
     (let gen_dir = (if truthy (generate_dir r) then Some (resolve e (str_of (generate_dir r)))
                     else generate_dir r)
      in if generate_github_actions r then
           (Inr (), w\<lparr>w_out := w_out w @ [py_rstrip_ws github_actions_workflow]\<rparr>)
         else
           (case staged e of
              Inl m \<Rightarrow> (Inl (StagingError m), w)
            | Inr tree \<Rightarrow>
                (let w1 = w\<lparr>w_files := tree(''Dockerfile'' \<mapsto> DOCKERFILE)\<rparr>;
                     w2 = w1\<lparr>w_files := (w_files w1)(''index.py'' \<mapsto> index_py r)\<rparr>
                 in if truthy (datasette_from_install r) \<and> truthy (branch r) then
                      (Inl (ClickException
                         ''Cannot use --branch and --install datasette... at the same time''), w2)
                    else
                      (let w3 = w2\<lparr>w_files :=
                                  (w_files w2)(''requirements.txt'' \<mapsto> requirements_txt r)\<rparr>
                       in if truthy gen_dir then generate e (str_of gen_dir) w3
                          else deploy e r w3))))"

text \<open>The bundle root once the three files are written over the staged tree.\<close>

definition bundle_files :: "(string \<rightharpoonup> string) \<Rightarrow> request \<Rightarrow> (string \<rightharpoonup> string)" where
  "bundle_files tree r =
     tree(''Dockerfile'' \<mapsto> DOCKERFILE, ''index.py'' \<mapsto> index_py r,
          ''requirements.txt'' \<mapsto> requirements_txt r)"

section \<open>Re-parsing the literals of the entry point\<close>

text \<open>
  What reading the generated text back means: a parser for the JSON literals that
  \<open>json.dumps\<close> writes (strings with their escapes, \<open>true\<close> and \<open>false\<close>, integers, lists of
  strings and objects), which skips whitespace between tokens and returns the value
  together with the text that follows it. An escape \<open>\uXXXX\<close> beyond the characters of the
  model is refused. The facts between the definitions are what the termination proofs
  need: every parser consumes input.
\<close>

definition json_ws :: "char \<Rightarrow> bool" where
  "json_ws c = (let n = (of_char c :: nat) in n = 32 \<or> n = 9 \<or> n = 10 \<or> n = 13)"

definition skip_ws :: "string \<Rightarrow> string" where
  "skip_ws s = dropWhile json_ws s"

definition hex_val :: "char \<Rightarrow> nat option" where
  "hex_val c =
     (let n = (of_char c :: nat)
      in if 48 \<le> n \<and> n \<le> 57 then Some (n - 48)
         else if 97 \<le> n \<and> n \<le> 102 then Some (n - 87)
         else if 65 \<le> n \<and> n \<le> 70 then Some (n - 55)
         else None)"

definition unescape :: "char \<Rightarrow> char option" where
  "unescape d =
     (let n = (of_char d :: nat)
      in if n = 34 \<or> n = 92 \<or> n = 47 then Some d
         else if n = 98 then Some (char_of (8 :: nat))
         else if n = 102 then Some (char_of (12 :: nat))
         else if n = 110 then Some (char_of (10 :: nat))
         else if n = 114 then Some (char_of (13 :: nat))
         else if n = 116 then Some (char_of (9 :: nat))
         else None)"

definition hex4 :: "char \<Rightarrow> char \<Rightarrow> char \<Rightarrow> char \<Rightarrow> nat option" where
  "hex4 a b c d =
     (case (hex_val a, hex_val b, hex_val c, hex_val d) of
        (Some w, Some x, Some y, Some z) \<Rightarrow> Some (((w * 16 + x) * 16 + y) * 16 + z)
      | _ \<Rightarrow> None)"

definition push :: "'a \<Rightarrow> ('a list \<times> string) option \<Rightarrow> ('a list \<times> string) option" where
  "push x r = map_option (\<lambda>(xs, rest). (x # xs, rest)) r"

fun parse_chars :: "string \<Rightarrow> (string \<times> string) option" where
  "parse_chars [] = None"
| "parse_chars (c # s) =
     (if (of_char c :: nat) = 34 then Some ([], s)
      else if (of_char c :: nat) = 92 then
        (case s of
           [] \<Rightarrow> None
         | d # t \<Rightarrow>
             if (of_char d :: nat) = 117 then
               (case t of
                  h1 # h2 # h3 # h4 # t' \<Rightarrow>
                    (case hex4 h1 h2 h3 h4 of
                       None \<Rightarrow> None
                     | Some n \<Rightarrow> if n < 256 then push (char_of n) (parse_chars t') else None)
                | _ \<Rightarrow> None)
             else
               (case unescape d of
                  None \<Rightarrow> None
                | Some x \<Rightarrow> push x (parse_chars t)))
      else if (of_char c :: nat) < 32 then None
      else push c (parse_chars s))"

definition parse_json_string :: "string \<Rightarrow> (string \<times> string) option" where
  "parse_json_string s =
     (case s of [] \<Rightarrow> None | c # t \<Rightarrow> if (of_char c :: nat) = 34 then parse_chars t else None)"

lemma push_Some: "push x r = Some (ys, rest) \<Longrightarrow> \<exists>xs. r = Some (xs, rest)"
  by (cases r) (auto simp add: push_def)

lemma parse_chars_length: "parse_chars s = Some (x, r) \<Longrightarrow> length r < length s"
proof (induction s arbitrary: x r rule: parse_chars.induct)
  case 1
  then show ?case by simp
next
  case (2 c s)
  then show ?case
    by (fastforce split: if_splits list.splits option.splits dest!: push_Some)
qed

lemma parse_json_string_length: "parse_json_string s = Some (x, r) \<Longrightarrow> length r < length s"
  by (auto simp add: parse_json_string_def split: list.splits if_splits dest!: parse_chars_length)

lemma skip_ws_length: "length (skip_ws s) \<le> length s"
  by (simp add: skip_ws_def length_dropWhile_le)

lemma skip_ws_Cons_length: "skip_ws s = c # t \<Longrightarrow> length t < length s"
  using skip_ws_length [of s] by simp

function parse_str_items :: "string \<Rightarrow> (string list \<times> string) option" where
  "parse_str_items s =
     (case parse_json_string (skip_ws s) of
        None \<Rightarrow> None
      | Some (x, r) \<Rightarrow>
          (case skip_ws r of
             [] \<Rightarrow> None
           | c # t \<Rightarrow>
               if c = CHR '','' then push x (parse_str_items t)
               else if c = CHR '']'' then Some ([x], t)
               else None))"
  by pat_completeness auto
termination
  apply (relation "measure length")
   apply simp
  apply (auto dest!: parse_json_string_length skip_ws_Cons_length)
  using skip_ws_length order_less_le_trans less_trans apply blast
  done

declare parse_str_items.simps [simp del]

definition parse_str_list :: "string \<Rightarrow> (string list \<times> string) option" where
  "parse_str_list s =
     (case skip_ws s of
        [] \<Rightarrow> None
      | c # t \<Rightarrow>
          if c = CHR ''['' then
            (case skip_ws t of
               [] \<Rightarrow> None
             | d # u \<Rightarrow> if d = CHR '']'' then Some ([], u) else parse_str_items t)
          else None)"

definition nat_of_digits :: "string \<Rightarrow> nat" where
  "nat_of_digits ds = foldl (\<lambda>a c. a * 10 + digit_val c) 0 ds"

definition parse_nat :: "string \<Rightarrow> (nat \<times> string) option" where
  "parse_nat s =
     (let ds = takeWhile is_digit s
      in if ds = [] then None else Some (nat_of_digits ds, dropWhile is_digit s))"

definition parse_value :: "string \<Rightarrow> (setting_value \<times> string) option" where
  "parse_value s =
     (if startswith s ''true'' then Some (VBool True, drop 4 s)
      else if startswith s ''false'' then Some (VBool False, drop 5 s)
      else
        (case s of
           [] \<Rightarrow> None
         | c # t \<Rightarrow>
             if (of_char c :: nat) = 34 then map_option (\<lambda>(x, r). (VStr x, r)) (parse_chars t)
             else if c = CHR ''-'' then map_option (\<lambda>(n, r). (VInt (- int n), r)) (parse_nat t)
             else map_option (\<lambda>(n, r). (VInt (int n), r)) (parse_nat s)))"

lemma parse_nat_length: "parse_nat s = Some (n, r) \<Longrightarrow> length r < length s"
proof -
  assume a: "parse_nat s = Some (n, r)"
  then have ne: "takeWhile is_digit s \<noteq> []" and r: "r = dropWhile is_digit s"
    by (auto simp add: parse_nat_def Let_def split: if_splits)
  have l: "0 < length (takeWhile is_digit s)"
    using ne by simp
  have e: "length (takeWhile is_digit s) + length (dropWhile is_digit s) = length s"
    by (metis length_append takeWhile_dropWhile_id)
  from l e show ?thesis
    unfolding r by linarith
qed

lemma parse_value_length: "parse_value s = Some (v, r) \<Longrightarrow> length r < length s"
proof -
  assume a: "parse_value s = Some (v, r)"
  have t: "startswith s p \<Longrightarrow> p \<noteq> [] \<Longrightarrow> length (drop (length p) s) < length s" for p
    by (cases s) (auto simp add: startswith_def)
  show ?thesis
  proof (cases "startswith s ''true''")
    case True
    then show ?thesis using a t [of "''true''"] by (auto simp add: parse_value_def)
  next
    case False
    note nt = this
    show ?thesis
    proof (cases "startswith s ''false''")
      case True
      then show ?thesis using a nt t [of "''false''"] by (auto simp add: parse_value_def)
    next
      case False
      then show ?thesis
        using a nt
        by (auto simp add: parse_value_def split: list.splits if_splits
            dest!: parse_chars_length parse_nat_length)
    qed
  qed
qed

function parse_items :: "string \<Rightarrow> ((string \<times> setting_value) list \<times> string) option" where
  "parse_items s =
     (case parse_json_string (skip_ws s) of
        None \<Rightarrow> None
      | Some (k, r) \<Rightarrow>
          (case skip_ws r of
             [] \<Rightarrow> None
           | c # t \<Rightarrow>
               if c = CHR '':'' then
                 (case parse_value (skip_ws t) of
                    None \<Rightarrow> None
                  | Some (v, u) \<Rightarrow>
                      (case skip_ws u of
                         [] \<Rightarrow> None
                       | d # u' \<Rightarrow>
                           if d = CHR '','' then push (k, v) (parse_items u')
                           else if d = CHR ''}'' then Some ([(k, v)], u')
                           else None))
               else None))"
  by pat_completeness auto
termination
  apply (relation "measure length")
   apply simp
  apply (auto dest!: parse_json_string_length parse_value_length skip_ws_Cons_length)
  subgoal for s r t u u'
    using skip_ws_length [of s] skip_ws_length [of t] by linarith
  done

declare parse_items.simps [simp del]

definition parse_dict :: "string \<Rightarrow> ((string \<times> setting_value) list \<times> string) option" where
  "parse_dict s =
     (case skip_ws s of
        [] \<Rightarrow> None
      | c # t \<Rightarrow>
          if c = CHR ''{'' then
            (case skip_ws t of
               [] \<Rightarrow> None
             | d # u \<Rightarrow> if d = CHR ''}'' then Some ([], u) else parse_items t)
          else None)"

text \<open>
  Reading \<open>index.py\<close> back: the fixed text of the template is matched literally, the two
  lists and the settings object are parsed where the fields stand, and the optional
  \<open>template_dir\<close> and \<open>plugins_dir\<close> arguments are stepped over when present.
\<close>

definition strip_prefix :: "string \<Rightarrow> string \<Rightarrow> string option" where
  "strip_prefix p s = (if startswith s p then Some (drop (length p) s) else None)"

definition skip_prefix :: "string \<Rightarrow> string \<Rightarrow> string" where
  "skip_prefix p s = (if startswith s p then drop (length p) s else s)"

definition reparse_index_py ::
  "string \<Rightarrow> (string list \<times> string list \<times> (string \<times> setting_value) list) option" where
  \<open>reparse_index_py text =
     (case strip_prefix INDEX_PY_1 text of
        None \<Rightarrow> None
      | Some t1 \<Rightarrow>
     (case parse_str_list t1 of
        None \<Rightarrow> None
      | Some (statics, t2) \<Rightarrow>
     (case strip_prefix INDEX_PY_2 t2 of
        None \<Rightarrow> None
      | Some t3 \<Rightarrow>
     (case parse_str_list t3 of
        None \<Rightarrow> None
      | Some (database_files, t4) \<Rightarrow>
     (case strip_prefix INDEX_PY_3 t4 of
        None \<Rightarrow> None
      | Some t5 \<Rightarrow>
     (case strip_prefix INDEX_PY_4
             (skip_prefix '', plugins_dir="plugins"''
               (skip_prefix '', template_dir="templates"'' t5)) of
        None \<Rightarrow> None
      | Some t6 \<Rightarrow>
     (case parse_dict t6 of
        None \<Rightarrow> None
      | Some (settings_map, t7) \<Rightarrow> Some (database_files, statics, settings_map))))))))\<close>

text \<open>The value a name has at its last occurrence in a list of pairs.\<close>

definition last_occurrence :: "'k \<Rightarrow> ('k \<times> 'v) list \<Rightarrow> 'v option" where
  "last_occurrence name ps =
     (case filter (\<lambda>p. fst p = name) ps of [] \<Rightarrow> None | q # qs \<Rightarrow> Some (snd (last (q # qs))))"

section \<open>Fixtures\<close>

text \<open>
  The environment of the repository's tests: every binary is found, \<open>docker\<close> succeeds, and
  \<open>curl\<close> returns the given exit code, output, diagnostic output and body. Staging yields a
  bundle root that holds \<open>test.db\<close>.
\<close>

definition test_env :: "int \<Rightarrow> string \<Rightarrow> string \<Rightarrow> string option \<Rightarrow> env" where
  "test_env code out err body =
     \<lparr>resolve = (\<lambda>p. ''/work/'' @ p),
      staged = Inr [''test.db'' \<mapsto> ''data''],
      which = (\<lambda>_. True),
      run_proc = (\<lambda>cmd. if take 1 cmd = [''curl'']
                         then \<lparr>returncode = code, stdout = out, stderr = err\<rparr>
                         else \<lparr>returncode = 0, stdout = [], stderr = []\<rparr>),
      body_read = (\<lambda>_. body),
      tmp_name = ''/tmp/body'',
      path_exists = (\<lambda>_. False),
      failure_text = (\<lambda>_ _. ''failed'')\<rparr>"

definition empty_world :: world where
  "empty_world = \<lparr>w_files = Map.empty, w_dirs = Map.empty, w_procs = [], w_out = [], w_err = []\<rparr>"

text \<open>\<open>datasette publish dokploy test.db\<close> with no option, and variations of it.\<close>

definition test_request :: request where
  "test_request =
     \<lparr>files = [''test.db''], branch = None, template_dir = None, plugins_dir = None,
      static = [], install = [], image_arg = None, generate_dir = None,
      generate_github_actions = False, dokploy_url = None, application_id = None,
      api_key = None, deploy_url = None, token = None, settings = [], crossdb = False\<rparr>"

definition api_request :: request where
  "api_request = test_request
     \<lparr>image_arg := Some ''ghcr.io/me/repo:latest'',
      dokploy_url := Some ''https://dokploy.example.com'',
      application_id := Some ''app-123'', api_key := Some ''secret'',
      deploy_url := Some ''https://dokploy.example.com/hook/deploy''\<rparr>"

definition conflict_request :: request where
  "conflict_request = test_request\<lparr>install := [''datasette==0.65.2''], branch := Some ''main''\<rparr>"

definition install_request :: request where
  "install_request = test_request
     \<lparr>install := [''datasette-foo'', '' Datasette>=1.0'', ''requests''],
      generate_dir := Some ''app''\<rparr>"

definition generate_request :: request where
  "generate_request = test_request\<lparr>generate_dir := Some ''app''\<rparr>"

text \<open>
  The invocation of \<open>test_publish_dokploy_generate\<close> and the text that test expects, and
  an invocation that gives one setting twice.
\<close>

definition golden_request :: request where
  "golden_request = test_request
     \<lparr>static := [(''static'', ''static'')],
      settings := [(''default_page_size'', VInt 10), (''sql_time_limit_ms'', VInt 2000),
                   (''allow_download'', VBool False)],
      crossdb := True,
      generate_dir := Some ''app''\<rparr>"

definition golden_index_py :: string where
  \<open>golden_index_py =
     str_join [CHR 0x0A]
       [''from datasette.app import Datasette'',
        ''import json'',
        ''import pathlib'',
        ''import os'',
        [],
        ''static_mounts = ['',
        ''    (static, str((pathlib.Path(".") / static).resolve()))'',
        ''    for static in ["static"]'',
        '']'',
        [],
        ''metadata = dict()'',
        ''try:'',
        ''    metadata = json.load(open("metadata.json"))'',
        ''except Exception:'',
        ''    pass'',
        [],
        ''secret = os.environ.get("DATASETTE_SECRET")'',
        [],
        ''true, false = True, False'',
        [],
        ''ds = Datasette('',
        ''    [],'',
        ''    ["test.db"],'',
        ''    static_mounts=static_mounts,'',
        ''    metadata=metadata,'',
        ''    secret=secret,'',
        ''    cors=True,'',
        ''    settings={"default_page_size": 10, "sql_time_limit_ms": 2000, "allow_download": false},'',
        ''    crossdb=True'',
        '')'',
        ''app = ds.app()'']\<close>

definition repeated_request :: request where
  "repeated_request = test_request
     \<lparr>settings := [(''default_page_size'', VInt 10), (''allow_download'', VBool True),
                   (''default_page_size'', VInt 50)]\<rparr>"

section \<open>Theorems\<close>

subsection \<open>Facts about the string functions\<close>

lemma startswith_snoc:
  "startswith r (p @ [c]) \<longleftrightarrow> startswith r p \<and> take 1 (drop (length p) r) = [c]"
proof (cases "length p \<le> length r")
  case True
  have "take (length p + 1) r = take (length p) r @ take 1 (drop (length p) r)"
    by (simp only: take_add)
  moreover have "length (take (length p) r) = length p"
    using True by simp
  ultimately show ?thesis
    by (simp add: startswith_def append_eq_append_conv)
next
  case False
  then have "length (take n r) < length p" for n
    by simp
  then have "take (length (p @ [c])) r \<noteq> p @ [c]" and "take (length p) r \<noteq> p"
    by (metis length_append_singleton less_Suc_eq not_less_iff_gr_or_eq, metis less_irrefl)
  then show ?thesis
    by (simp add: startswith_def)
qed

lemma startswith_self: "startswith p p"
  by (simp add: startswith_def)

subsection \<open>C2: which requirement strings name the framework\<close>

lemma looks_like_mixed_case: "looks_like_datasette_requirement '' Datasette>=1.0''"
  by code_simp

text \<open>
  C2, as amended. A requirement string is recognised exactly when, after surrounding
  whitespace is stripped and the string is lower-cased, it is \<open>datasette\<close> or starts with
  \<open>datasette\<close> followed at once by one of \<open>= < > ! ~ [\<close> or a space. The requirement
  \<open>datasette-foo\<close> is not recognised.
\<close>

theorem looks_like_datasette_requirement_iff:
  "(looks_like_datasette_requirement req \<longleftrightarrow>
     (let r = py_lower (py_strip req)
      in r = ''datasette'' \<or> (\<exists>c \<in> set ''=<>!~[ ''. startswith r (''datasette'' @ [c]))))
   \<and> \<not> looks_like_datasette_requirement ''datasette-foo''"
proof -
  define r where "r = py_lower (py_strip req)"
  define D where "D = ''datasette''"
  define nx where "nx = take 1 (drop (length D) r)"
  have mem: "nx \<in> set [''='', ''<'', ''>'', ''!'', ''~'', ''['', '' ''] \<longleftrightarrow>
      (\<exists>c \<in> set ''=<>!~[ ''. nx = [c])"
    by auto
  have lhs: "looks_like_datasette_requirement req \<longleftrightarrow>
     startswith r D \<and> (r = D \<or> nx \<in> set [''='', ''<'', ''>'', ''!'', ''~'', ''['', '' ''])"
    unfolding looks_like_datasette_requirement_def Let_def r_def [symmetric] D_def [symmetric]
      nx_def [symmetric]
    by (auto simp add: startswith_self)
  have rhs: "startswith r (D @ [c]) \<longleftrightarrow> startswith r D \<and> nx = [c]" for c
    unfolding nx_def by (rule startswith_snoc)
  have "looks_like_datasette_requirement req \<longleftrightarrow>
      r = D \<or> (\<exists>c \<in> set ''=<>!~[ ''. startswith r (D @ [c]))"
    unfolding lhs mem rhs using startswith_self by blast
  then have "looks_like_datasette_requirement req \<longleftrightarrow>
     (let r = py_lower (py_strip req)
      in r = ''datasette'' \<or> (\<exists>c \<in> set ''=<>!~[ ''. startswith r (''datasette'' @ [c])))"
    unfolding Let_def r_def D_def .
  moreover have "\<not> looks_like_datasette_requirement ''datasette-foo''"
    by code_simp
  ultimately show ?thesis by blast
qed

theorem looks_like_datasette_requirement_iff_witness:
  "looks_like_datasette_requirement '' Datasette>=1.0''
   \<and> (let r = py_lower (py_strip '' Datasette>=1.0'')
      in r = ''datasette'' \<or> (\<exists>c \<in> set ''=<>!~[ ''. startswith r (''datasette'' @ [c])))"
  using looks_like_datasette_requirement_iff [of "'' Datasette>=1.0''"] looks_like_mixed_case
  by blast

text \<open>
  C2 as written fails: \<open>Datasette\<close>, with a capital letter, is recognised, and it is
  neither the string \<open>datasette\<close> nor does it start with \<open>datasette\<close>.
\<close>

theorem looks_like_datasette_requirement_counterexample:
  "looks_like_datasette_requirement ''Datasette''
   \<and> ''Datasette'' \<noteq> ''datasette''
   \<and> \<not> startswith ''Datasette'' ''datasette''"
  by code_simp

subsection \<open>Effects of the HTTP caller, the triggers and the deployment\<close>

lemma curl_check_procs:
  "w_procs (snd (curl_check e url method headers data w)) = w_procs w @ [curl_cmd e url method headers data]"
  by (simp add: curl_check_def Let_def)

lemma curl_check_files:
  "w_files (snd (curl_check e url method headers data w)) = w_files w"
  by (simp add: curl_check_def Let_def)

lemma snd_discard: "snd (discard x) = snd x"
  by (cases x) (auto simp add: discard_def split: sum.splits)

lemma trigger_dokploy_procs:
  "w_procs (snd (trigger_dokploy e u a k w)) = w_procs w @
     [curl_cmd e (py_rstrip u ''/'' @ ''/api/application.deploy'') ''POST''
        [''x-api-key: '' @ k, ''accept: application/json'', ''content-type: application/json'']
        (Some (json_dumps_dict [(''applicationId'', VStr a)]))]"
  by (simp add: trigger_dokploy_def Let_def snd_discard curl_check_procs)

lemma trigger_webhook_procs:
  "w_procs (snd (trigger_webhook e u t w)) = w_procs w @
     [curl_cmd e u ''POST'' (if truthy t then [''Authorization: Bearer '' @ str_of t] else []) None]"
  by (simp add: trigger_webhook_def Let_def snd_discard curl_check_procs truthy_def str_of_def split: option.splits)

lemma trigger_files: "w_files (snd (trigger e r w)) = w_files w"
  by (simp add: trigger_def trigger_dokploy_def trigger_webhook_def Let_def snd_discard curl_check_files)

lemma run_checked_files: "w_files (snd (run_checked e cmd w)) = w_files w"
  by (simp add: run_checked_def Let_def)

lemma deploy_files: "w_files (snd (deploy e r w)) = w_files w"
proof -
  have a: "run_checked e c v = (x, v') \<Longrightarrow> w_files v' = w_files v" for c v x v'
    using run_checked_files [of e c v] by simp
  show ?thesis
    by (auto simp add: deploy_def trigger_files split: prod.splits sum.splits dest!: a)
qed

lemma generate_files: "w_files (snd (generate e d w)) = w_files w"
  by (simp add: generate_def)

lemma generate_procs: "w_procs (snd (generate e d w)) = w_procs w"
  by (simp add: generate_def)

lemma find_looks_like_truthy:
  "truthy (find looks_like_datasette_requirement xs) \<longleftrightarrow> (\<exists>req \<in> set xs. looks_like_datasette_requirement req)"
proof -
  have n: "\<not> looks_like_datasette_requirement []"
    by code_simp
  show ?thesis
  proof (cases "find looks_like_datasette_requirement xs")
    case None
    then have "\<not> (\<exists>req \<in> set xs. looks_like_datasette_requirement req)"
      by (simp add: find_None_iff)
    with None show ?thesis by (simp add: truthy_def)
  next
    case (Some q)
    then have "looks_like_datasette_requirement q" "q \<in> set xs"
      by (auto simp add: find_Some_iff)
    with Some n show ?thesis by (auto simp add: truthy_def)
  qed
qed

lemma requirements_txt_eq:
  "requirements_txt r = str_join [CHR 0x0A]
     ((case find looks_like_datasette_requirement (install r) of
         Some req \<Rightarrow> req
       | None \<Rightarrow> if truthy (branch r)
                 then ''https://github.com/simonw/datasette/archive/'' @ str_of (branch r) @ ''.zip''
                 else ''datasette'')
      # ''pysqlite3-binary'' # ''uvicorn''
      # filter (\<lambda>req. \<not> looks_like_datasette_requirement req) (install r))"
proof (cases "find looks_like_datasette_requirement (install r)")
  case None
  then have f: "filter (\<lambda>req. \<not> looks_like_datasette_requirement req) (install r) = install r"
    by (auto simp add: find_None_iff filter_id_conv)
  from None show ?thesis
    by (simp add: requirements_txt_def datasette_from_install_def Let_def truthy_def f)
next
  case (Some q)
  then have "truthy (find looks_like_datasette_requirement (install r))"
    unfolding find_looks_like_truthy by (auto simp add: find_Some_iff)
  with Some show ?thesis
    by (simp add: requirements_txt_def datasette_from_install_def Let_def str_of_def)
qed

lemma publish_requirements:
  assumes "\<not> generate_github_actions r" and "\<not> isl (staged e)"
    and "\<not> (truthy (datasette_from_install r) \<and> truthy (branch r))"
  shows "w_files (snd (publish e r w)) ''requirements.txt'' = Some (requirements_txt r)"
  using assms
  by (auto simp add: publish_def Let_def generate_files deploy_files split: sum.splits)

subsection \<open>C6: when the HTTP caller raises, and with which text\<close>

text \<open>
  C6, as amended. The HTTP caller raises exactly when the client process exits non-zero
  or the status parsed from its output lies outside \<open>[200, 300)\<close>. When the process exits
  non-zero the error text is its diagnostic output with surrounding whitespace
  stripped, or \<open>curl failed with code N\<close> when that is empty. Otherwise, when the status is
  outside the range, the text is \<open>HTTP <status>: \<close> followed by the stripped response body,
  or by \<open>(empty response body)\<close> when that is empty. On success the response body is
  returned.
\<close>

theorem curl_check_outcome:
  "(let cmd = curl_cmd e url method headers data;
        code = returncode (run_proc e cmd);
        err = py_strip (stderr (run_proc e cmd));
        status = parse_status (py_strip (stdout (run_proc e cmd)));
        body = (case body_read e cmd of Some b \<Rightarrow> b | None \<Rightarrow> []);
        res = fst (curl_check e url method headers data w)
    in (isl res \<longleftrightarrow> code \<noteq> 0 \<or> status < 200 \<or> 300 \<le> status)
       \<and> res =
           (if code \<noteq> 0 then
              Inl (ClickException
                (if err \<noteq> [] then err else ''curl failed with code '' @ py_str_int code))
            else if status < 200 \<or> 300 \<le> status then
              Inl (ClickException
                (''HTTP '' @ py_str_int status @ '': '' @
                   (if py_strip body \<noteq> [] then py_strip body else ''(empty response body)'')))
            else Inr body))"
  by (simp add: curl_check_def Let_def)

theorem curl_check_outcome_witness:
  "isl (fst (curl_check (test_env 0 ''404'' [] (Some ''nope'')) ''http://h'' ''POST'' [] None empty_world))
   \<and> fst (curl_check (test_env 0 ''404'' [] (Some ''nope'')) ''http://h'' ''POST'' [] None empty_world)
       = Inl (ClickException ''HTTP 404: nope'')"
proof -
  let ?e = "test_env 0 ''404'' [] (Some ''nope'')"
  let ?cmd = "curl_cmd ?e ''http://h'' ''POST'' [] None"
  have c: "returncode (run_proc ?e ?cmd) = 0"
    by code_simp
  have s: "parse_status (py_strip (stdout (run_proc ?e ?cmd))) = 404"
    by code_simp
  have b: "py_strip (case body_read ?e ?cmd of Some b \<Rightarrow> b | None \<Rightarrow> []) = ''nope''"
    by code_simp
  have n: "py_str_int 404 = ''404''"
    by code_simp
  show ?thesis
    using curl_check_outcome [of ?e "''http://h''" "''POST''" "[]" None empty_world]
    by (simp add: Let_def c s b n)
qed

text \<open>
  C6 as written fails: the process exits with code 1 and writes nothing to its diagnostic
  stream, and the error text is \<open>curl failed with code 1\<close>, not the (empty) diagnostic
  output.
\<close>

theorem curl_check_text_counterexample:
  "returncode (run_proc (test_env 1 [] [] None)
     (curl_cmd (test_env 1 [] [] None) ''http://h'' ''POST'' [] None)) \<noteq> 0
   \<and> stderr (run_proc (test_env 1 [] [] None)
     (curl_cmd (test_env 1 [] [] None) ''http://h'' ''POST'' [] None)) = []
   \<and> fst (curl_check (test_env 1 [] [] None) ''http://h'' ''POST'' [] None empty_world)
       = Inl (ClickException ''curl failed with code 1'')"
  by code_simp

subsection \<open>C10: a status that cannot be read\<close>

text \<open>
  C10. When the client process exits zero and its output, stripped, is empty or is not
  an integer literal, the status is taken to be 0 and the caller raises the HTTP error
  whose text is \<open>HTTP 0: \<close> followed by the (stripped) body, or by the placeholder when
  that is empty.
\<close>

theorem curl_check_unparsed_status:
  assumes "returncode (run_proc e (curl_cmd e url method headers data)) = 0"
    and "py_strip (stdout (run_proc e (curl_cmd e url method headers data))) = []
         \<or> py_int (py_strip (stdout (run_proc e (curl_cmd e url method headers data)))) = None"
  shows "parse_status (py_strip (stdout (run_proc e (curl_cmd e url method headers data)))) = 0
    \<and> fst (curl_check e url method headers data w) =
        Inl (ClickException (''HTTP 0: '' @
          (let body = py_strip (case body_read e (curl_cmd e url method headers data) of
                                  Some b \<Rightarrow> b | None \<Rightarrow> [])
           in if body \<noteq> [] then body else ''(empty response body)'')))"
proof -
  have z: "py_str_int 0 = ''0''"
    by code_simp
  have s: "parse_status (py_strip (stdout (run_proc e (curl_cmd e url method headers data)))) = 0"
    using assms(2) by (auto simp add: parse_status_def)
  show ?thesis
    using assms(1) s by (simp add: curl_check_def Let_def z)
qed

theorem curl_check_unparsed_status_witness:
  "fst (curl_check (test_env 0 ''ok'' [] None) ''http://h'' ''POST'' [] None empty_world)
     = Inl (ClickException ''HTTP 0: (empty response body)'')"
proof -
  let ?e = "test_env 0 ''ok'' [] None"
  let ?cmd = "curl_cmd ?e ''http://h'' ''POST'' [] None"
  have c: "returncode (run_proc ?e ?cmd) = 0"
    by code_simp
  have s: "py_strip (stdout (run_proc ?e ?cmd)) = []
      \<or> py_int (py_strip (stdout (run_proc ?e ?cmd))) = None"
    by code_simp
  have b: "py_strip (case body_read ?e ?cmd of Some b \<Rightarrow> b | None \<Rightarrow> []) = []"
    by code_simp
  show ?thesis
    using curl_check_unparsed_status [OF c s, of empty_world]
    by (simp add: Let_def b)
qed

subsection \<open>C7: the request of the API trigger\<close>

lemma py_rstrip_split: "\<exists>n. u = py_rstrip u [c] @ replicate n c"
proof -
  let ?P = "\<lambda>x. x \<in> set [c]"
  have "rev u = takeWhile ?P (rev u) @ dropWhile ?P (rev u)"
    by simp
  then have "u = rev (dropWhile ?P (rev u)) @ rev (takeWhile ?P (rev u))"
    by (metis rev_append rev_rev_ident)
  moreover have "rev (takeWhile ?P (rev u)) = replicate (length (takeWhile ?P (rev u))) c"
    by (metis (mono_tags, lifting) empty_iff empty_set length_rev replicate_eqI set_ConsD set_rev set_takeWhileD)
  ultimately show ?thesis
    unfolding py_rstrip_def by metis
qed

lemma py_rstrip_no_trailing: "py_rstrip u [c] \<noteq> v @ [c]"
proof
  assume "py_rstrip u [c] = v @ [c]"
  then have "dropWhile (\<lambda>x. x \<in> set [c]) (rev u) = c # rev v"
    unfolding py_rstrip_def by (metis rev.simps(2) rev_rev_ident rev_swap)
  then show False
    by (metis (mono_tags, lifting) hd_dropWhile list.sel(1) list.set_intros(1) list.simps(3))
qed

lemma json_escape_plain: "json_plain c \<Longrightarrow> json_escape_char c = [c]"
  unfolding json_plain_def json_escape_char_def Let_def
  by (cases c) auto

lemma json_string_plain:
  "list_all json_plain s \<Longrightarrow> json_string s = CHR 0x22 # s @ [CHR 0x22]"
proof -
  assume "list_all json_plain s"
  then have "concat (map json_escape_char s) = s"
    by (induction s) (simp_all add: json_escape_plain)
  then show ?thesis by (simp add: json_string_def)
qed

lemma payload: \<open>json_dumps_dict [(''applicationId'', VStr a)] = ''{"applicationId": '' @ json_string a @ ''}''\<close>
proof -
  have \<open>json_string ''applicationId'' = ''"applicationId"''\<close>
    by code_simp
  then show ?thesis
    by (simp add: json_dumps_dict_def json_dumps_item_def json_dumps_value_def)
qed

text \<open>
  C7. The API trigger starts exactly one client process: a POST to the URL made of
  \<open>dokployUrl\<close> without its trailing slashes and \<open>/api/application.deploy\<close>, with the three
  headers and with the JSON object \<open>{"applicationId": <applicationId as a JSON string>}\<close> as
  data. For an id of plain characters that JSON string is the id between quotes.
\<close>

theorem trigger_dokploy_request:
  \<open>w_procs (snd (trigger_dokploy e u a k w)) = w_procs w @
     [[''curl'', ''-sS'', ''-X'', ''POST'', py_rstrip u ''/'' @ ''/api/application.deploy'',
       ''-o'', tmp_name e, ''-w'', ''%{http_code}'',
       ''-H'', ''x-api-key: '' @ k,
       ''-H'', ''accept: application/json'',
       ''-H'', ''content-type: application/json'',
       ''-d'', ''{"applicationId": '' @ json_string a @ ''}'']]
   \<and> (\<exists>n. u = py_rstrip u ''/'' @ replicate n (CHR ''/''))
   \<and> (\<forall>v. py_rstrip u ''/'' \<noteq> v @ ''/'')
   \<and> (list_all json_plain a \<longrightarrow> json_string a = ''"'' @ a @ ''"'')\<close>
  using py_rstrip_split [of u "CHR ''/''"] py_rstrip_no_trailing [of u "CHR ''/''"]
  by (simp add: trigger_dokploy_procs payload curl_cmd_def json_string_plain)

lemma test_id_plain: "list_all json_plain ''app-123''"
  by code_simp

lemma test_url_rstrip: "py_rstrip ''https://dokploy.example.com/'' ''/'' = ''https://dokploy.example.com''"
  by code_simp

theorem trigger_dokploy_request_witness:
  \<open>w_procs (snd (trigger_dokploy (test_env 0 ''200'' [] (Some [])) ''https://dokploy.example.com/''
      ''app-123'' ''secret'' empty_world)) =
     [[''curl'', ''-sS'', ''-X'', ''POST'', ''https://dokploy.example.com/api/application.deploy'',
       ''-o'', ''/tmp/body'', ''-w'', ''%{http_code}'',
       ''-H'', ''x-api-key: secret'',
       ''-H'', ''accept: application/json'',
       ''-H'', ''content-type: application/json'',
       ''-d'', ''{"applicationId": "app-123"}'']]\<close>
  using trigger_dokploy_request [of "test_env 0 ''200'' [] (Some [])" "''https://dokploy.example.com/''"
      "''app-123''" "''secret''" empty_world] test_id_plain
  by (simp add: test_url_rstrip test_env_def empty_world_def)

subsection \<open>C5: which trigger fires\<close>

lemma publish_direct:
  assumes "\<not> generate_github_actions r" and "staged e = Inr tree"
    and "\<not> (truthy (datasette_from_install r) \<and> truthy (branch r))"
    and "\<not> truthy (generate_dir r)"
  shows "publish e r w = deploy e r (w\<lparr>w_files := bundle_files tree r\<rparr>)"
proof -
  have "\<not> truthy (if truthy (generate_dir r) then Some (resolve e (str_of (generate_dir r)))
                   else generate_dir r)"
    using assms(4) by simp
  then show ?thesis
    using assms(1,2,3) by (auto simp add: publish_def Let_def bundle_files_def)
qed

lemma deploy_built:
  assumes "truthy (image_arg r)" and "which e ''docker''" and "which e ''curl''"
    and "returncode (run_proc e [''docker'', ''build'', ''-t'', str_of (image_arg r), ''.'']) = 0"
    and "returncode (run_proc e [''docker'', ''push'', str_of (image_arg r)]) = 0"
  shows "deploy e r w =
     trigger e r (w\<lparr>w_procs := w_procs w @
        [[''docker'', ''build'', ''-t'', str_of (image_arg r), ''.''],
         [''docker'', ''push'', str_of (image_arg r)]]\<rparr>)"
  using assms by (simp add: deploy_def run_checked_def Let_def)

text \<open>
  C5. In direct-deployment mode, after \<open>docker build\<close> and \<open>docker push\<close> have succeeded:
  when \<open>dokploy_url\<close>, \<open>application_id\<close> and \<open>api_key\<close> are all given (non-empty), the run is
  the API trigger and the only client process is its request, whether or not a webhook URL
  is given; otherwise, when \<open>deploy_url\<close> is given, the run is the webhook trigger and the
  only client process is its request; otherwise no further process is started and the run
  succeeds.
\<close>

theorem publish_trigger_selection:
  assumes "\<not> generate_github_actions r" and "staged e = Inr tree"
    and "\<not> (truthy (datasette_from_install r) \<and> truthy (branch r))"
    and "\<not> truthy (generate_dir r)"
    and "truthy (image_arg r)" and "which e ''docker''" and "which e ''curl''"
    and "returncode (run_proc e [''docker'', ''build'', ''-t'', str_of (image_arg r), ''.'']) = 0"
    and "returncode (run_proc e [''docker'', ''push'', str_of (image_arg r)]) = 0"
  shows
    "(let built = w\<lparr>w_files := bundle_files tree r,
                    w_procs := w_procs w @
                      [[''docker'', ''build'', ''-t'', str_of (image_arg r), ''.''],
                       [''docker'', ''push'', str_of (image_arg r)]]\<rparr>
      in if truthy (dokploy_url r) \<and> truthy (application_id r) \<and> truthy (api_key r) then
           publish e r w =
             trigger_dokploy e (str_of (dokploy_url r)) (str_of (application_id r))
               (str_of (api_key r)) built
           \<and> w_procs (snd (publish e r w)) = w_procs built @
               [curl_cmd e (py_rstrip (str_of (dokploy_url r)) ''/'' @ ''/api/application.deploy'')
                  ''POST''
                  [''x-api-key: '' @ str_of (api_key r), ''accept: application/json'',
                   ''content-type: application/json'']
                  (Some (json_dumps_dict [(''applicationId'', VStr (str_of (application_id r)))]))]
         else if truthy (deploy_url r) then
           publish e r w = trigger_webhook e (str_of (deploy_url r)) (token r) built
           \<and> w_procs (snd (publish e r w)) = w_procs built @
               [curl_cmd e (str_of (deploy_url r)) ''POST''
                  (if truthy (token r) then [''Authorization: Bearer '' @ str_of (token r)] else [])
                  None]
         else publish e r w = (Inr (), built))"
proof -
  have "publish e r w = trigger e r (w\<lparr>w_files := bundle_files tree r,
                    w_procs := w_procs w @
                      [[''docker'', ''build'', ''-t'', str_of (image_arg r), ''.''],
                       [''docker'', ''push'', str_of (image_arg r)]]\<rparr>)"
    using publish_direct [OF assms(1-4)] deploy_built [OF assms(5-9)] by simp
  then show ?thesis
    by (simp add: Let_def trigger_def trigger_dokploy_procs trigger_webhook_procs)
qed

lemma api_request_hyps:
  "\<not> generate_github_actions api_request"
  "staged (test_env 0 ''200'' [] (Some [])) = Inr [''test.db'' \<mapsto> ''data'']"
  "\<not> (truthy (datasette_from_install api_request) \<and> truthy (branch api_request))"
  "\<not> truthy (generate_dir api_request)"
  "truthy (image_arg api_request)"
  "which (test_env 0 ''200'' [] (Some [])) ''docker''"
  "which (test_env 0 ''200'' [] (Some [])) ''curl''"
  "returncode (run_proc (test_env 0 ''200'' [] (Some []))
     [''docker'', ''build'', ''-t'', str_of (image_arg api_request), ''.'']) = 0"
  "returncode (run_proc (test_env 0 ''200'' [] (Some []))
     [''docker'', ''push'', str_of (image_arg api_request)]) = 0"
  by (simp_all add: api_request_def test_request_def test_env_def truthy_def str_of_def
      datasette_from_install_def)

lemma api_request_truthy:
  "truthy (dokploy_url api_request) \<and> truthy (application_id api_request) \<and> truthy (api_key api_request)"
  by (simp add: api_request_def test_request_def truthy_def)

theorem publish_trigger_selection_witness:
  "w_procs (snd (publish (test_env 0 ''200'' [] (Some [])) api_request empty_world)) =
     [[''docker'', ''build'', ''-t'', ''ghcr.io/me/repo:latest'', ''.''],
      [''docker'', ''push'', ''ghcr.io/me/repo:latest''],
      curl_cmd (test_env 0 ''200'' [] (Some [])) ''https://dokploy.example.com/api/application.deploy''
        ''POST''
        [''x-api-key: secret'', ''accept: application/json'', ''content-type: application/json'']
        (Some (json_dumps_dict [(''applicationId'', VStr ''app-123'')]))]"
proof -
  have u: "py_rstrip (str_of (dokploy_url api_request)) ''/'' = ''https://dokploy.example.com''"
    by code_simp
  have s: "str_of (image_arg api_request) = ''ghcr.io/me/repo:latest''"
      "str_of (api_key api_request) = ''secret''"
      "str_of (application_id api_request) = ''app-123''"
    by (simp_all add: api_request_def test_request_def str_of_def)
  show ?thesis
    using publish_trigger_selection [OF api_request_hyps, of empty_world] api_request_truthy
    by (simp add: Let_def u s empty_world_def trigger_dokploy_procs)
qed

subsection \<open>C3: a branch together with a framework requirement\<close>

text \<open>
  C3, as amended. When the install list holds a requirement recognised as naming the
  framework and a branch is given, no process is started at all (no container engine, no
  HTTP client); and unless the run is in generate-workflow mode or staging itself fails,
  the run fails with the usage error.
\<close>

theorem publish_branch_conflict:
  assumes "truthy (branch r)"
    and "\<exists>req \<in> set (install r). looks_like_datasette_requirement req"
  shows "w_procs (snd (publish e r w)) = w_procs w \<and>
    (\<not> generate_github_actions r \<and> \<not> isl (staged e) \<longrightarrow>
       fst (publish e r w) =
         Inl (ClickException ''Cannot use --branch and --install datasette... at the same time''))"
proof -
  have c: "truthy (datasette_from_install r)"
    using assms(2) by (simp add: datasette_from_install_def find_looks_like_truthy)
  show ?thesis
    using c assms(1) by (simp add: publish_def Let_def split: sum.splits)
qed

lemma conflict_request_hyps:
  "truthy (branch conflict_request)"
  "\<exists>req \<in> set (install conflict_request). looks_like_datasette_requirement req"
  "\<not> generate_github_actions conflict_request"
  by code_simp+

lemma test_env_staged: "\<not> isl (staged (test_env c out err b))"
  by (simp add: test_env_def)

theorem publish_branch_conflict_witness:
  "w_procs (snd (publish (test_env 0 ''200'' [] None) conflict_request empty_world)) = []
   \<and> fst (publish (test_env 0 ''200'' [] None) conflict_request empty_world) =
       Inl (ClickException ''Cannot use --branch and --install datasette... at the same time'')"
  using publish_branch_conflict [OF conflict_request_hyps(1,2), of "test_env 0 ''200'' [] None" empty_world]
    conflict_request_hyps(3) test_env_staged
  by (simp add: empty_world_def)

text \<open>
  C3 as written fails: with \<open>--generate-github-actions\<close> the run prints the workflow and
  succeeds before the install list is looked at; and when staging raises, the run fails
  with the staging error, not with the usage error.
\<close>

theorem publish_branch_conflict_counterexample:
  "truthy (branch (conflict_request\<lparr>generate_github_actions := True\<rparr>))
   \<and> looks_like_datasette_requirement (hd (install (conflict_request\<lparr>generate_github_actions := True\<rparr>)))
   \<and> fst (publish (test_env 0 ''200'' [] None)
            (conflict_request\<lparr>generate_github_actions := True\<rparr>) empty_world) = Inr ()
   \<and> truthy (branch conflict_request)
   \<and> looks_like_datasette_requirement (hd (install conflict_request))
   \<and> fst (publish ((test_env 0 ''200'' [] None)\<lparr>staged := Inl ''no such file''\<rparr>)
            conflict_request empty_world) = Inl (StagingError ''no such file'')"
  by code_simp

subsection \<open>C4: the dependency list\<close>

text \<open>
  C4. \<open>requirements.txt\<close> is the newline-joined list of: the first install entry recognised
  as a framework requirement if there is one, else the archive URL of the branch if a
  branch is given, else \<open>datasette\<close>; then \<open>pysqlite3-binary\<close> and \<open>uvicorn\<close>; then the install
  entries that are not recognised, in their order. Outside generate-workflow mode, when
  staging succeeds and branch and framework requirement do not conflict, the run writes
  exactly this file.
\<close>

theorem requirements_txt_content:
  "requirements_txt r = str_join [CHR 0x0A]
     ((case find looks_like_datasette_requirement (install r) of
         Some req \<Rightarrow> req
       | None \<Rightarrow> if truthy (branch r)
                 then ''https://github.com/simonw/datasette/archive/'' @ str_of (branch r) @ ''.zip''
                 else ''datasette'')
      # ''pysqlite3-binary'' # ''uvicorn''
      # filter (\<lambda>req. \<not> looks_like_datasette_requirement req) (install r))
   \<and> (\<not> generate_github_actions r \<and> \<not> isl (staged e)
        \<and> \<not> (truthy (branch r) \<and> (\<exists>req \<in> set (install r). looks_like_datasette_requirement req))
      \<longrightarrow> w_files (snd (publish e r w)) ''requirements.txt'' = Some (requirements_txt r))"
proof -
  have "\<not> (truthy (branch r) \<and> (\<exists>req \<in> set (install r). looks_like_datasette_requirement req))
    \<Longrightarrow> \<not> (truthy (datasette_from_install r) \<and> truthy (branch r))"
    by (auto simp add: datasette_from_install_def find_looks_like_truthy)
  then show ?thesis
    using requirements_txt_eq [of r] publish_requirements [of r e w] by blast
qed

lemma install_request_hyps:
  "\<not> generate_github_actions install_request"
  "\<not> (truthy (branch install_request)
      \<and> (\<exists>req \<in> set (install install_request). looks_like_datasette_requirement req))"
  by code_simp+

lemma install_request_find:
  "find looks_like_datasette_requirement (install install_request) = Some '' Datasette>=1.0''"
  "filter (\<lambda>req. \<not> looks_like_datasette_requirement req) (install install_request)
     = [''datasette-foo'', ''requests'']"
  by code_simp+

theorem requirements_txt_content_witness:
  "w_files (snd (publish (test_env 0 ''200'' [] None) install_request empty_world)) ''requirements.txt''
     = Some (str_join [CHR 0x0A]
         ['' Datasette>=1.0'', ''pysqlite3-binary'', ''uvicorn'', ''datasette-foo'', ''requests''])"
  using requirements_txt_content [of install_request "test_env 0 ''200'' [] None" empty_world]
    install_request_hyps test_env_staged [of 0 "''200''" "[]" None]
  by (simp add: install_request_find del: str_join.simps)

subsection \<open>C8: generate-only mode\<close>

lemma dom_bundle_files:
  "dom (bundle_files tree r) = {''index.py'', ''Dockerfile'', ''requirements.txt''} \<union> dom tree"
  by (auto simp add: bundle_files_def)

text \<open>
  C8, as amended. With a generate directory set and generate-workflow mode not set, the
  run starts no process. If moreover staging succeeds and has put the database files in
  the bundle root under their base names, branch and framework requirement do not
  conflict, and the target directory does not exist yet, then the run succeeds and the
  target directory holds \<open>index.py\<close>, \<open>Dockerfile\<close>, \<open>requirements.txt\<close> and every database
  file.
\<close>

theorem publish_generate_only:
  assumes "truthy (generate_dir r)" and "\<not> generate_github_actions r"
    and "resolve e (str_of (generate_dir r)) \<noteq> []"
  shows "w_procs (snd (publish e r w)) = w_procs w \<and>
    (staged e = Inr tree
     \<and> basename ` set (files r) \<subseteq> dom tree
     \<and> \<not> (truthy (branch r) \<and> (\<exists>req \<in> set (install r). looks_like_datasette_requirement req))
     \<and> \<not> path_exists e (resolve e (str_of (generate_dir r)))
     \<longrightarrow> fst (publish e r w) = Inr ()
         \<and> w_dirs (snd (publish e r w)) (resolve e (str_of (generate_dir r)))
             = Some (bundle_files tree r)
         \<and> {''index.py'', ''Dockerfile'', ''requirements.txt''} \<subseteq> dom (bundle_files tree r)
         \<and> basename ` set (files r) \<subseteq> dom (bundle_files tree r))"
proof -
  let ?d = "resolve e (str_of (generate_dir r))"
  have g: "truthy (Some ?d)" "str_of (Some ?d) = ?d"
    using assms(3) by (simp_all add: truthy_def str_of_def)
  have c: "truthy (datasette_from_install r) \<longleftrightarrow>
      (\<exists>req \<in> set (install r). looks_like_datasette_requirement req)"
    by (simp add: datasette_from_install_def find_looks_like_truthy)
  have p: "w_procs (snd (publish e r w)) = w_procs w"
    using assms(1,2) g by (simp add: publish_def Let_def generate_procs split: sum.splits)
  have s: "fst (publish e r w) = Inr ()
         \<and> w_dirs (snd (publish e r w)) ?d = Some (bundle_files tree r)"
    if "staged e = Inr tree"
      and "\<not> (truthy (branch r) \<and> (\<exists>req \<in> set (install r). looks_like_datasette_requirement req))"
      and "\<not> path_exists e ?d"
  proof -
    have "publish e r w = generate e ?d (w\<lparr>w_files := bundle_files tree r\<rparr>)"
      using assms(1,2) g that(1,2) c by (auto simp add: publish_def Let_def bundle_files_def)
    then show ?thesis
      using that(3) by (simp add: generate_def)
  qed
  show ?thesis
    using p s by (auto simp add: dom_bundle_files)
qed

lemma generate_request_hyps:
  "truthy (generate_dir generate_request)"
  "\<not> generate_github_actions generate_request"
  "resolve (test_env 0 ''200'' [] None) (str_of (generate_dir generate_request)) \<noteq> []"
  by code_simp+

lemma generate_request_more:
  "staged (test_env 0 ''200'' [] None) = Inr [''test.db'' \<mapsto> ''data'']"
  "basename ` set (files generate_request) \<subseteq> dom [''test.db'' \<mapsto> ''data'']"
  "\<not> (truthy (branch generate_request)
      \<and> (\<exists>req \<in> set (install generate_request). looks_like_datasette_requirement req))"
  "\<not> path_exists (test_env 0 ''200'' [] None)
      (resolve (test_env 0 ''200'' [] None) (str_of (generate_dir generate_request)))"
  "resolve (test_env 0 ''200'' [] None) (str_of (generate_dir generate_request)) = ''/work/app''"
  by (simp_all add: test_env_def generate_request_def test_request_def str_of_def truthy_def
      basename_def)

theorem publish_generate_only_witness:
  "w_procs (snd (publish (test_env 0 ''200'' [] None) generate_request empty_world)) = []
   \<and> fst (publish (test_env 0 ''200'' [] None) generate_request empty_world) = Inr ()
   \<and> w_dirs (snd (publish (test_env 0 ''200'' [] None) generate_request empty_world)) ''/work/app''
       = Some (bundle_files [''test.db'' \<mapsto> ''data''] generate_request)
   \<and> ''test.db'' \<in> dom (bundle_files [''test.db'' \<mapsto> ''data''] generate_request)"
  using publish_generate_only [OF generate_request_hyps, of empty_world "[''test.db'' \<mapsto> ''data'']"]
    generate_request_more
  by (simp add: empty_world_def generate_request_def test_request_def basename_def)

text \<open>
  C8 as written fails: with a branch and a framework requirement the run raises the usage
  error and writes no target directory; and when the target directory exists already,
  \<open>shutil.copytree\<close> raises.
\<close>

theorem publish_generate_only_counterexample:
  "truthy (generate_dir (conflict_request\<lparr>generate_dir := Some ''app''\<rparr>))
   \<and> \<not> generate_github_actions (conflict_request\<lparr>generate_dir := Some ''app''\<rparr>)
   \<and> fst (publish (test_env 0 ''200'' [] None)
            (conflict_request\<lparr>generate_dir := Some ''app''\<rparr>) empty_world)
       = Inl (ClickException ''Cannot use --branch and --install datasette... at the same time'')
   \<and> w_dirs (snd (publish (test_env 0 ''200'' [] None)
            (conflict_request\<lparr>generate_dir := Some ''app''\<rparr>) empty_world)) ''/work/app'' = None
   \<and> fst (publish ((test_env 0 ''200'' [] None)\<lparr>path_exists := (\<lambda>p. True)\<rparr>)
            generate_request empty_world)
       = Inl (FileExistsError ''/work/app'')"
  by code_simp

subsection \<open>Round trip of \<open>json.dumps\<close>\<close>

lemma of_char_less_256: "(of_char c :: nat) < 256"
  by (metis of_char_mod_256 mod_less_divisor zero_less_numeral)

lemma of_char_eq_iff_nat: "(of_char c :: nat) = of_char d \<longleftrightarrow> c = d"
  by (metis char_of_char)

lemma hex_val_hex_digit: "d < 16 \<Longrightarrow> hex_val (hex_digit d) = Some d"
  by (auto simp add: hex_val_def hex_digit_def Let_def)

lemma hex_val_zero: "hex_val (CHR ''0'') = Some 0"
  by (simp add: hex_val_def)

lemma hex4_escape:
  "hex4 (CHR ''0'') (CHR ''0'') (hex_digit (of_char c div 16)) (hex_digit (of_char c mod 16))
     = Some (of_char c)"
proof -
  have "(of_char c :: nat) div 16 < 16"
    using of_char_less_256 [of c] by arith
  then show ?thesis
    by (simp add: hex4_def hex_val_zero hex_val_hex_digit)
qed

lemma parse_chars_escape:
  "parse_chars (json_escape_char c @ s) = push c (parse_chars s)"
proof -
  let ?n = "of_char c :: nat"
  have c: "c = char_of ?n" by simp
  consider "?n = 34" | "?n = 92" | "?n = 8" | "?n = 12" | "?n = 10" | "?n = 13" | "?n = 9"
    | "32 \<le> ?n" "?n \<le> 126" "?n \<noteq> 34" "?n \<noteq> 92"
    | "?n < 32" "?n \<noteq> 8" "?n \<noteq> 12" "?n \<noteq> 10" "?n \<noteq> 13" "?n \<noteq> 9"
    | "126 < ?n"
    by linarith
  then show ?thesis
  proof cases
    case 1
    then have "c = CHR 0x22" using of_char_eq_iff_nat [of c "CHR 0x22"] by simp
    then show ?thesis by (simp add: json_escape_char_def unescape_def)
  next
    case 2
    then have "c = CHR 0x5C" using of_char_eq_iff_nat [of c "CHR 0x5C"] by simp
    then show ?thesis by (simp add: json_escape_char_def unescape_def)
  next
    case 3
    then have "c = char_of (8::nat)" using c by simp
    with 3 show ?thesis by (simp add: json_escape_char_def unescape_def)
  next
    case 4
    then have "c = char_of (12::nat)" using c by simp
    with 4 show ?thesis by (simp add: json_escape_char_def unescape_def)
  next
    case 5
    then have "c = char_of (10::nat)" using c by simp
    with 5 show ?thesis by (simp add: json_escape_char_def unescape_def)
  next
    case 6
    then have "c = char_of (13::nat)" using c by simp
    with 6 show ?thesis by (simp add: json_escape_char_def unescape_def)
  next
    case 7
    then have "c = char_of (9::nat)" using c by simp
    with 7 show ?thesis by (simp add: json_escape_char_def unescape_def)
  next
    case 8
    then show ?thesis by (simp add: json_escape_char_def)
  next
    case 9
    then show ?thesis
      using of_char_less_256 [of c]
      by (simp add: json_escape_char_def Let_def hex4_escape)
  next
    case 10
    then show ?thesis
      using of_char_less_256 [of c]
      by (simp add: json_escape_char_def Let_def hex4_escape)
  qed
qed

lemma parse_chars_roundtrip:
  "parse_chars (concat (map json_escape_char s) @ CHR 0x22 # rest) = Some (s, rest)"
  by (induction s) (simp_all add: parse_chars_escape push_def)

lemma parse_json_string_roundtrip:
  "parse_json_string (json_string s @ rest) = Some (s, rest)"
  using parse_chars_roundtrip [of s rest]
  by (simp add: parse_json_string_def json_string_def)

lemma skip_ws_json_string: "skip_ws (json_string s @ rest) = json_string s @ rest"
  by (simp add: skip_ws_def json_string_def json_ws_def)

lemma skip_ws_not_ws: "\<not> json_ws c \<Longrightarrow> skip_ws (c # s) = c # s"
  by (simp add: skip_ws_def)

lemma skip_ws_space: "skip_ws (CHR '' '' # s) = skip_ws s"
  by (simp add: skip_ws_def json_ws_def)

lemma json_ws_punct:
  "\<not> json_ws (CHR '','')" "\<not> json_ws (CHR '']'')" "\<not> json_ws (CHR ''['')"
  "\<not> json_ws (CHR ''{'')" "\<not> json_ws (CHR ''}'')" "\<not> json_ws (CHR '':'')"
  by (simp_all add: json_ws_def)

lemma parse_str_items_roundtrip:
  "parse_str_items (str_join '', '' (map json_string (x # xs)) @ CHR '']'' # rest)
     = Some (x # xs, rest)"
proof (induction xs arbitrary: x)
  case Nil
  show ?case
    by (subst parse_str_items.simps)
      (simp add: skip_ws_json_string parse_json_string_roundtrip skip_ws_not_ws json_ws_punct)
next
  case (Cons y ys)
  have "parse_str_items (json_string x @ CHR '','' # CHR '' '' #
          (str_join '', '' (map json_string (y # ys)) @ CHR '']'' # rest))
        = push x (parse_str_items (CHR '' '' #
          (str_join '', '' (map json_string (y # ys)) @ CHR '']'' # rest)))"
    by (subst parse_str_items.simps)
      (simp add: skip_ws_json_string parse_json_string_roundtrip skip_ws_not_ws json_ws_punct)
  moreover have "parse_str_items (CHR '' '' # t) = parse_str_items t" for t
    by (subst parse_str_items.simps, subst (2) parse_str_items.simps) (simp add: skip_ws_space)
  ultimately show ?case
    using Cons.IH [of y] by (simp add: push_def)
qed

lemma parse_str_list_roundtrip:
  "parse_str_list (json_dumps_list xs @ rest) = Some (xs, rest)"
proof (cases xs)
  case Nil
  then show ?thesis
    by (simp add: parse_str_list_def json_dumps_list_def skip_ws_not_ws json_ws_punct)
next
  case (Cons y ys)
  have "skip_ws (str_join '', '' (map json_string (y # ys)) @ CHR '']'' # rest)
      = CHR 0x22 # tl (str_join '', '' (map json_string (y # ys)) @ CHR '']'' # rest)"
    by (cases ys) (simp_all add: json_string_def skip_ws_def json_ws_def)
  then show ?thesis
    using parse_str_items_roundtrip [of y ys rest] Cons
    by (simp add: parse_str_list_def json_dumps_list_def skip_ws_not_ws json_ws_punct)
qed

lemma is_digit_digit_char: "d < 10 \<Longrightarrow> is_digit (digit_char d)"
  by (simp add: is_digit_def digit_char_def)

lemma digit_val_digit_char: "d < 10 \<Longrightarrow> digit_val (digit_char d) = d"
  by (simp add: digit_val_def digit_char_def)

lemma str_nat_digits: "list_all is_digit (str_nat n) \<and> str_nat n \<noteq> []"
proof (induction n rule: str_nat.induct)
  case (1 n)
  show ?case
  proof (cases "n < 10")
    case True
    then show ?thesis
      by (subst str_nat.simps, subst (2) str_nat.simps) (simp add: is_digit_digit_char)
  next
    case False
    with 1 show ?thesis
      by (subst str_nat.simps, subst (2) str_nat.simps) (simp add: is_digit_digit_char)
  qed
qed

lemma nat_of_digits_snoc: "nat_of_digits (ds @ [c]) = nat_of_digits ds * 10 + digit_val c"
  by (simp add: nat_of_digits_def)

lemma nat_of_digits_str_nat: "nat_of_digits (str_nat n) = n"
proof (induction n rule: str_nat.induct)
  case (1 n)
  show ?case
  proof (cases "n < 10")
    case True
    then show ?thesis
      by (subst str_nat.simps) (simp add: nat_of_digits_def digit_val_digit_char)
  next
    case False
    with 1 show ?thesis
      by (subst str_nat.simps) (simp add: nat_of_digits_snoc digit_val_digit_char)
  qed
qed

lemma parse_nat_roundtrip:
  assumes "\<not> is_digit c"
  shows "parse_nat (str_nat n @ c # rest) = Some (n, c # rest)"
proof -
  have d: "\<forall>x \<in> set (str_nat n). is_digit x" and ne: "str_nat n \<noteq> []"
    using str_nat_digits [of n] by (simp_all add: list_all_iff)
  have "takeWhile is_digit (str_nat n @ c # rest) = str_nat n"
    using d assms by (simp add: takeWhile_append2)
  moreover have "dropWhile is_digit (str_nat n @ c # rest) = c # rest"
    using d assms by (simp add: dropWhile_append2)
  ultimately show ?thesis
    using ne by (simp add: parse_nat_def nat_of_digits_str_nat)
qed

lemma str_nat_hd: "\<exists>d ds. str_nat n = d # ds \<and> is_digit d"
  using str_nat_digits [of n] by (cases "str_nat n") simp_all

lemma is_digit_of_char: "is_digit d \<Longrightarrow> 48 \<le> (of_char d :: nat) \<and> (of_char d :: nat) \<le> 57"
  by (simp add: is_digit_def)

lemma parse_value_roundtrip:
  assumes "\<not> is_digit c"
  shows "parse_value (json_dumps_value v @ c # rest) = Some (v, c # rest)"
proof (cases v)
  case (VBool b)
  then show ?thesis
    by (simp add: parse_value_def json_dumps_value_def startswith_def)
next
  case (VInt i)
  show ?thesis
  proof (cases "i < 0")
    case True
    then have "parse_value (CHR ''-'' # str_nat (nat (- i)) @ c # rest) = Some (VInt i, c # rest)"
      using parse_nat_roundtrip [OF assms, of "nat (- i)" rest]
      by (simp add: parse_value_def startswith_def)
    with True VInt show ?thesis
      by (simp add: json_dumps_value_def py_str_int_def)
  next
    case False
    obtain d ds where s: "str_nat (nat i) = d # ds" and d: "is_digit d"
      using str_nat_hd by blast
    have n: "(of_char d :: nat) \<noteq> 34" "d \<noteq> CHR ''-''" "d \<noteq> CHR ''t''" "d \<noteq> CHR ''f''"
      using is_digit_of_char [OF d] by auto
    have "parse_value (d # ds @ c # rest) =
        map_option (\<lambda>(n, r). (VInt (int n), r)) (parse_nat (d # ds @ c # rest))"
      using n by (simp add: parse_value_def startswith_def)
    then have "parse_value (str_nat (nat i) @ c # rest) = Some (VInt i, c # rest)"
      using parse_nat_roundtrip [OF assms, of "nat i" rest] False s by simp
    with False VInt show ?thesis
      by (simp add: json_dumps_value_def py_str_int_def)
  qed
next
  case (VStr x)
  have "parse_value (CHR 0x22 # concat (map json_escape_char x) @ CHR 0x22 # c # rest)
      = Some (VStr x, c # rest)"
    using parse_chars_roundtrip [of x "c # rest"]
    by (simp add: parse_value_def startswith_def)
  with VStr show ?thesis
    by (simp add: json_dumps_value_def json_string_def)
qed

lemma json_dumps_value_hd: "\<exists>d ds. json_dumps_value v = d # ds \<and> \<not> json_ws d"
proof (cases v)
  case (VBool b)
  then show ?thesis by (simp add: json_dumps_value_def json_ws_def)
next
  case (VInt i)
  obtain d ds where s: "str_nat (nat i) = d # ds" and d: "is_digit d"
    using str_nat_hd by blast
  have "\<not> json_ws d"
    using is_digit_of_char [OF d] by (simp add: json_ws_def)
  with s VInt show ?thesis
    by (simp add: json_dumps_value_def py_str_int_def json_ws_def)
next
  case (VStr x)
  then show ?thesis by (simp add: json_dumps_value_def json_string_def json_ws_def)
qed

lemma skip_ws_value: "skip_ws (json_dumps_value v @ s) = json_dumps_value v @ s"
  using json_dumps_value_hd [of v] by (auto simp add: skip_ws_def)

lemma parse_items_step:
  assumes "d = CHR '','' \<or> d = CHR ''}''"
  shows "parse_items (json_dumps_item kv @ d # t) =
     (if d = CHR '','' then push kv (parse_items t) else Some ([kv], t))"
proof -
  have nd: "\<not> is_digit d" "\<not> json_ws d"
    using assms by (auto simp add: is_digit_def json_ws_def)
  have "json_dumps_item kv @ d # t
      = json_string (fst kv) @ CHR '':'' # CHR '' '' # json_dumps_value (snd kv) @ d # t"
    by (simp add: json_dumps_item_def)
  then show ?thesis
    using assms nd
    by (subst parse_items.simps)
      (auto simp add: skip_ws_json_string parse_json_string_roundtrip skip_ws_not_ws json_ws_punct
        skip_ws_space skip_ws_value parse_value_roundtrip)
qed

lemma parse_items_space: "parse_items (CHR '' '' # t) = parse_items t"
  by (subst parse_items.simps, subst (2) parse_items.simps) (simp add: skip_ws_space)

lemma parse_items_roundtrip:
  "parse_items (str_join '', '' (map json_dumps_item (x # xs)) @ CHR ''}'' # rest)
     = Some (x # xs, rest)"
proof (induction xs arbitrary: x)
  case Nil
  show ?case
    using parse_items_step [of "CHR ''}''" x rest] by simp
next
  case (Cons y ys)
  have "parse_items (json_dumps_item x @ CHR '','' # CHR '' '' #
          (str_join '', '' (map json_dumps_item (y # ys)) @ CHR ''}'' # rest))
        = push x (parse_items (CHR '' '' #
          (str_join '', '' (map json_dumps_item (y # ys)) @ CHR ''}'' # rest)))"
    using parse_items_step [of "CHR '',''" x] by simp
  then show ?case
    using Cons.IH [of y] by (simp add: push_def parse_items_space)
qed

lemma json_dumps_item_hd: "\<exists>ds. json_dumps_item kv = CHR 0x22 # ds"
  by (simp add: json_dumps_item_def json_string_def)

lemma parse_dict_roundtrip:
  "parse_dict (json_dumps_dict d @ rest) = Some (d, rest)"
proof (cases d)
  case Nil
  then show ?thesis
    by (simp add: parse_dict_def json_dumps_dict_def skip_ws_not_ws json_ws_punct)
next
  case (Cons y ys)
  have "skip_ws (str_join '', '' (map json_dumps_item (y # ys)) @ CHR ''}'' # rest)
      = CHR 0x22 # tl (str_join '', '' (map json_dumps_item (y # ys)) @ CHR ''}'' # rest)"
    using json_dumps_item_hd [of y]
    by (cases ys) (auto simp add: skip_ws_def json_ws_def)
  then show ?thesis
    using parse_items_roundtrip [of y ys rest] Cons
    by (simp add: parse_dict_def json_dumps_dict_def skip_ws_not_ws json_ws_punct)
qed

subsection \<open>C1: the entry point read back\<close>

lemma strip_prefix_append: "strip_prefix p (p @ s) = Some s"
  by (simp add: strip_prefix_def startswith_def)

lemma skip_prefix_append: "skip_prefix p (p @ s) = s"
  by (simp add: skip_prefix_def startswith_def)

lemma skip_prefix_other:
  "(a, b, c) \<noteq> (a', b', c') \<Longrightarrow>
     skip_prefix (a # b # c # p) (a' # b' # c' # s) = a' # b' # c' # s"
  by (auto simp add: skip_prefix_def startswith_def)

lemma INDEX_PY_4_hd: "\<exists>z. INDEX_PY_4 @ s = CHR '','' # CHR 0x0A # CHR '' '' # z"
  by (simp add: INDEX_PY_4_def)

lemma skip_extras:
  \<open>skip_prefix '', plugins_dir="plugins"''
     (skip_prefix '', template_dir="templates"'' (extras_text r @ INDEX_PY_4 @ s)) = INDEX_PY_4 @ s\<close>
proof -
  obtain z where z: "INDEX_PY_4 @ s = CHR '','' # CHR 0x0A # CHR '' '' # z"
    using INDEX_PY_4_hd by blast
  have n1: \<open>skip_prefix '', template_dir="templates"'' (INDEX_PY_4 @ s) = INDEX_PY_4 @ s\<close>
    unfolding z by (simp add: skip_prefix_other)
  have n2: \<open>skip_prefix '', plugins_dir="plugins"'' (INDEX_PY_4 @ s) = INDEX_PY_4 @ s\<close>
    unfolding z by (simp add: skip_prefix_other)
  have n3: \<open>skip_prefix '', template_dir="templates"'' ('', plugins_dir="plugins"'' @ t)
      = '', plugins_dir="plugins"'' @ t\<close> for t
    by (simp add: skip_prefix_other)
  show ?thesis
  proof (cases "truthy (template_dir r)")
    case True
    note t = this
    show ?thesis
    proof (cases "truthy (plugins_dir r)")
      case True
      have \<open>extras_text r @ INDEX_PY_4 @ s =
          '', template_dir="templates"'' @ '', plugins_dir="plugins"'' @ INDEX_PY_4 @ s\<close>
        using t True by (simp add: extras_text_def)
      then show ?thesis
        by (simp only: skip_prefix_append)
    next
      case False
      have \<open>extras_text r @ INDEX_PY_4 @ s = '', template_dir="templates"'' @ INDEX_PY_4 @ s\<close>
        using t False by (simp add: extras_text_def)
      then show ?thesis
        by (simp only: skip_prefix_append n2)
    qed
  next
    case False
    note t = this
    show ?thesis
    proof (cases "truthy (plugins_dir r)")
      case True
      have \<open>extras_text r @ INDEX_PY_4 @ s = '', plugins_dir="plugins"'' @ INDEX_PY_4 @ s\<close>
        using t True by (simp add: extras_text_def)
      then show ?thesis
        by (simp only: n3 skip_prefix_append)
    next
      case False
      have \<open>extras_text r @ INDEX_PY_4 @ s = INDEX_PY_4 @ s\<close>
        using t False by (simp add: extras_text_def)
      then show ?thesis
        by (simp only: n1 n2)
    qed
  qed
qed

lemma index_py_text:
  "index_py r =
     INDEX_PY_1 @ json_dumps_list (map fst (static r)) @ INDEX_PY_2
       @ json_dumps_list (map basename (files r)) @ INDEX_PY_3 @ extras_text r
       @ INDEX_PY_4 @ json_dumps_dict (py_dict (settings r)) @ crossdb_text r @ INDEX_PY_5"
  by (simp add: index_py_def INDEX_PY_format_def)

lemma reparse_index_py_roundtrip:
  "reparse_index_py (index_py r) =
     Some (map basename (files r), map fst (static r), py_dict (settings r))"
  unfolding index_py_text reparse_index_py_def
  by (simp only: strip_prefix_append parse_str_list_roundtrip skip_extras parse_dict_roundtrip
      option.case prod.case)




text \<open>The model gives the text that the repository's test expects, character by character.\<close>

lemma index_py_golden: "index_py golden_request = golden_index_py"
  by code_simp

subsection \<open>C9: a setting given more than once\<close>

lemma dict_set_map_of: "map_of (dict_set d k v) = (map_of d)(k \<mapsto> v)"
  by (induction d k v rule: dict_set.induct) auto

lemma dict_set_keys:
  "map fst (dict_set d k v) = (if k \<in> set (map fst d) then map fst d else map fst d @ [k])"
  by (induction d k v rule: dict_set.induct) auto

lemma dict_set_distinct: "distinct (map fst d) \<Longrightarrow> distinct (map fst (dict_set d k v))"
  by (simp add: dict_set_keys)

lemma foldl_dict_set_map_of:
  "map_of (foldl (\<lambda>d (k, v). dict_set d k v) d ps) = map_of d ++ map_of (rev ps)"
proof (induction ps arbitrary: d)
  case Nil
  show ?case by simp
next
  case (Cons p ps)
  obtain k v where p: "p = (k, v)" by (cases p)
  have "map_of (foldl (\<lambda>d (k, v). dict_set d k v) d (p # ps))
      = map_of (foldl (\<lambda>d (k, v). dict_set d k v) (dict_set d k v) ps)"
    by (simp add: p)
  also have "\<dots> = map_of (dict_set d k v) ++ map_of (rev ps)"
    by (rule Cons.IH)
  also have "\<dots> = (map_of d)(k \<mapsto> v) ++ map_of (rev ps)"
    by (simp only: dict_set_map_of)
  also have "\<dots> = map_of d ++ ([k \<mapsto> v] ++ map_of (rev ps))"
    by (rule ext) (simp add: map_add_def split: option.splits)
  also have "[k \<mapsto> v] ++ map_of (rev ps) = map_of (rev (p # ps))"
    by (simp add: p map_of_append)
  finally show ?case .
qed

lemma foldl_dict_set_distinct:
  "distinct (map fst d) \<Longrightarrow> distinct (map fst (foldl (\<lambda>d (k, v). dict_set d k v) d ps))"
  by (induction ps arbitrary: d) (auto simp add: dict_set_distinct)

lemma py_dict_map_of: "map_of (py_dict ps) = map_of (rev ps)"
  by (simp add: py_dict_def foldl_dict_set_map_of)

lemma py_dict_distinct: "distinct (map fst (py_dict ps))"
  by (simp add: py_dict_def foldl_dict_set_distinct)

lemma map_of_rev_last_occurrence: "map_of (rev ps) name = last_occurrence name ps"
proof (induction ps)
  case Nil
  show ?case by (simp add: last_occurrence_def)
next
  case (Cons p ps)
  show ?case
  proof (cases "filter (\<lambda>q. fst q = name) ps")
    case Nil
    then have "last_occurrence name ps = None"
      by (simp add: last_occurrence_def)
    with Cons Nil show ?thesis
      by (cases p) (auto simp add: map_of_append last_occurrence_def map_add_def)
  next
    case (Cons q qs)
    then have "last_occurrence name (p # ps) = last_occurrence name ps"
      by (simp add: last_occurrence_def)
    moreover have "last_occurrence name ps \<noteq> None"
      using Cons by (simp add: last_occurrence_def)
    ultimately show ?thesis
      using Cons.IH by (auto simp add: map_of_append map_add_def split: option.splits)
  qed
qed

text \<open>
  C9. The settings object written into the entry point, read back, has every name once,
  and gives each name the value of its last occurrence among the \<open>--setting\<close> arguments.
\<close>

theorem settings_last_occurrence:
  "\<exists>database_files statics settings_map.
     reparse_index_py (index_py r) = Some (database_files, statics, settings_map)
     \<and> distinct (map fst settings_map)
     \<and> (\<forall>name. map_of settings_map name = last_occurrence name (settings r))"
  using reparse_index_py_roundtrip [of r] py_dict_distinct [of "settings r"]
  by (simp add: py_dict_map_of map_of_rev_last_occurrence)

lemma repeated_request_values:
  "reparse_index_py (index_py repeated_request) =
     Some ([''test.db''], [], [(''default_page_size'', VInt 50), (''allow_download'', VBool True)])"
  "last_occurrence ''default_page_size'' (settings repeated_request) = Some (VInt 50)"
  by code_simp+

theorem settings_last_occurrence_witness:
  "reparse_index_py (index_py repeated_request) =
     Some ([''test.db''], [], [(''default_page_size'', VInt 50), (''allow_download'', VBool True)])
   \<and> map_of [(''default_page_size'', VInt 50), (''allow_download'', VBool True)] ''default_page_size''
       = last_occurrence ''default_page_size'' (settings repeated_request)"
  using settings_last_occurrence [of repeated_request] repeated_request_values
  by auto

end
